theory Spec2Isabelle
  imports Complex_Main "HOL-Library.Sublist"
begin

section \<open>Python values and exceptions\<close>

text \<open>
  The values that reach the repository's Python code: what \<^verbatim>\<open>json.loads\<close> produces and
  what \<^verbatim>\<open>json.dumps\<close> consumes. A JSON number is an integer or a decimal fraction, so a
  rational covers both readings; a string is a list of characters (code points below
  256, which is all the notebooks use); a dictionary is an association list in key
  order, read with \<open>map_of\<close>.
\<close>

datatype pyval =
    PNone
  | PBool bool
  | PInt int
  | PFloat rat
  | PStr string
  | PList "pyval list"
  | PDict "(string \<times> pyval) list"

text \<open>
  Exceptions are values. \<open>ValueError\<close> stands for the class and its subclasses (what
  \<^verbatim>\<open>except ValueError\<close> catches); \<open>OtherError cls msg\<close> is any exception raised
  inside a library or the cloud SDK that is none of the first three.
\<close>

datatype exn =
    ValueError string
  | TypeError string
  | AttributeError string
  | OtherError string string

text \<open>Python truth testing, as \<^verbatim>\<open>if input:\<close> applies it.\<close>

fun truthy :: "pyval \<Rightarrow> bool" where
  "truthy PNone = False"
| "truthy (PBool b) = b"
| "truthy (PInt i) = (i \<noteq> 0)"
| "truthy (PFloat r) = (r \<noteq> 0)"
| "truthy (PStr s) = (s \<noteq> [])"
| "truthy (PList xs) = (xs \<noteq> [])"
| "truthy (PDict kvs) = (kvs \<noteq> [])"

text \<open>
  A replacement field \<^verbatim>\<open>{x}\<close> of an f-string inserts \<^verbatim>\<open>str(x)\<close>. For a string
  that is the string itself; for every other value it is Python's built-in \<^verbatim>\<open>str\<close>,
  which is not code of this repository and is taken as the parameter \<open>py_str\<close>.
\<close>

definition format_value :: "(pyval \<Rightarrow> string) \<Rightarrow> pyval \<Rightarrow> string" where
  "format_value py_str v = (case v of PStr s \<Rightarrow> s | _ \<Rightarrow> py_str v)"

text \<open>
  \<^verbatim>\<open>for inp in instruction\<close>: a list yields its elements, a string its characters, a
  dictionary its keys; nothing else is iterable.
\<close>

fun py_iter :: "pyval \<Rightarrow> exn + pyval list" where
  "py_iter (PList xs) = Inr xs"
| "py_iter (PStr s) = Inr (map (\<lambda>c. PStr [c]) s)"
| "py_iter (PDict kvs) = Inr (map (\<lambda>kv. PStr (fst kv)) kvs)"
| "py_iter PNone = Inl (TypeError ''object is not iterable'')"
| "py_iter (PBool b) = Inl (TypeError ''object is not iterable'')"
| "py_iter (PInt i) = Inl (TypeError ''object is not iterable'')"
| "py_iter (PFloat r) = Inl (TypeError ''object is not iterable'')"

text \<open>\<^verbatim>\<open>d.get(key, default)\<close>: only a dictionary has the method.\<close>

fun py_get :: "pyval \<Rightarrow> string \<Rightarrow> pyval \<Rightarrow> exn + pyval" where
  "py_get (PDict kvs) key dflt = Inr (case map_of kvs key of None \<Rightarrow> dflt | Some v \<Rightarrow> v)"
| "py_get PNone key dflt = Inl (AttributeError ''get'')"
| "py_get (PBool b) key dflt = Inl (AttributeError ''get'')"
| "py_get (PInt i) key dflt = Inl (AttributeError ''get'')"
| "py_get (PFloat r) key dflt = Inl (AttributeError ''get'')"
| "py_get (PStr s) key dflt = Inl (AttributeError ''get'')"
| "py_get (PList xs) key dflt = Inl (AttributeError ''get'')"


section \<open>The custom inference handler \<^verbatim>\<open>model.py\<close>\<close>

text \<open>
  The first notebook writes \<^verbatim>\<open>lora-multi-adapter/model.py\<close> and names it as the entry
  point in \<^verbatim>\<open>serving.properties\<close>. Its two module globals are the state; the classes
  it imports (transformers, peft, torch, djl_python) are not code of this repository and
  are the fields of \<open>lib\<close>, each returning either the exception it raises or its result.
  The type variables are the library's objects: \<open>'m\<close> a loaded base model, \<open>'p\<close> a
  \<^verbatim>\<open>PeftModel\<close>, \<open>'k\<close> a tokenizer, \<open>'t\<close> tensor data.
\<close>

datatype ('m, 'p) pymodel = Base 'm | Peft 'p

record ('m, 'p, 'k) globals =
  model :: "('m, 'p) pymodel option"
  tokenizer :: "'k option"

record ('m, 'p, 'k, 't) lib =
  builtin_str :: "pyval \<Rightarrow> string"
  llama_from_pretrained :: "string option \<Rightarrow> exn + 'm"
  tokenizer_from_pretrained :: "string option \<Rightarrow> exn + 'k"
  pad_token :: "'k \<Rightarrow> string option"
  set_pad_token :: "'k \<Rightarrow> string \<Rightarrow> 'k"
  tokenizer_call :: "'k \<Rightarrow> string list \<Rightarrow> exn + 't"
  input_ids_to_device :: "'t \<Rightarrow> exn + 't"
  attention_mask_to_device :: "'t \<Rightarrow> exn + 't"
  generate :: "('m, 'p) pymodel \<Rightarrow> 't \<Rightarrow> 't \<Rightarrow> pyval \<Rightarrow> pyval \<Rightarrow> exn + 't"
  batch_decode :: "'k \<Rightarrow> 't \<Rightarrow> exn + string list"
  peft_from_pretrained ::
    "('m, 'p) pymodel option \<Rightarrow> string option \<Rightarrow> string option \<Rightarrow> exn + 'p"
  load_adapter :: "'p \<Rightarrow> string option \<Rightarrow> string option \<Rightarrow> exn + 'p"

text \<open>
  The request object of the model server (\<^verbatim>\<open>djl_python.inputs.Input\<close>), by the three
  methods the handler calls on it.
\<close>

record Input =
  get_properties :: "string \<rightharpoonup> string"
  is_empty :: bool
  get_as_json :: "exn + pyval"

definition get_property :: "Input \<Rightarrow> string \<Rightarrow> string option" where
  "get_property inputs key = get_properties inputs key"

text \<open>\<^verbatim>\<open>Output().add_as_json(outputs)\<close>\<close>

datatype Output = Output_add_as_json "string list"

subsection \<open>\<^verbatim>\<open>generate_prompt\<close>\<close>

text \<open>
  The two f-strings are triple-quoted and span source lines: each holds a line feed
  followed by the eight spaces of indentation of the next source line.
\<close>

definition generate_prompt :: "(pyval \<Rightarrow> string) \<Rightarrow> pyval \<Rightarrow> pyval \<Rightarrow> string" where
  "generate_prompt py_str instruction input =
     (if truthy input then
        ''Below is an instruction that describes a task, paired with an input that provides further context. ''
        @ [CHR 0x0A]
        @ ''        Write a response that appropriately completes the request. ### Instruction: ''
        @ format_value py_str instruction
        @ '' ### Input: ''
        @ format_value py_str input
        @ '' '' @ [CHR 0x0A] @ ''        ### Response:''
      else
        ''Below is an instruction that describes a task. Write a response that appropriately completes the ''
        @ [CHR 0x0A]
        @ ''        request.### Instruction: ''
        @ format_value py_str instruction
        @ '' ### Response:'')"

subsection \<open>\<^verbatim>\<open>evaluate\<close>\<close>

text \<open>
  The loop \<^verbatim>\<open>for inp in instruction: prompts.append(generate_prompt(inp, input))\<close>,
  with the list \<open>prompts\<close> as the accumulator.
\<close>

fun evaluate_prompts :: "(pyval \<Rightarrow> string) \<Rightarrow> pyval \<Rightarrow> pyval list \<Rightarrow> string list \<Rightarrow> string list" where
  "evaluate_prompts py_str input [] prompts = prompts"
| "evaluate_prompts py_str input (inp # rest) prompts =
     evaluate_prompts py_str input rest (prompts @ [generate_prompt py_str inp input])"

text \<open>
  The call \<^verbatim>\<open>evaluate(sentence, adapters, **generation_kwargs)\<close> binds the keyword
  arguments before the body runs: the argument after \<^verbatim>\<open>**\<close> must be a mapping, a key
  that names one of the two positional parameters is a duplicate, \<^verbatim>\<open>input\<close> and
  \<^verbatim>\<open>max_new_tokens\<close> take their defaults \<^verbatim>\<open>None\<close> and \<^verbatim>\<open>64\<close> when absent, and
  every other key lands in \<^verbatim>\<open>**kwargs\<close>, which the body never reads. The result is the
  pair \<open>(input, max_new_tokens)\<close>.
\<close>

fun bind_kwargs :: "pyval \<Rightarrow> exn + (pyval \<times> pyval)" where
  "bind_kwargs (PDict kvs) =
     (if map_of kvs ''instruction'' \<noteq> None \<or> map_of kvs ''adapters'' \<noteq> None
      then Inl (TypeError ''got multiple values for argument'')
      else Inr (case map_of kvs ''input'' of None \<Rightarrow> PNone | Some v \<Rightarrow> v,
                case map_of kvs ''max_new_tokens'' of None \<Rightarrow> PInt 64 | Some v \<Rightarrow> v))"
| "bind_kwargs PNone = Inl (TypeError ''argument after ** must be a mapping'')"
| "bind_kwargs (PBool b) = Inl (TypeError ''argument after ** must be a mapping'')"
| "bind_kwargs (PInt i) = Inl (TypeError ''argument after ** must be a mapping'')"
| "bind_kwargs (PFloat r) = Inl (TypeError ''argument after ** must be a mapping'')"
| "bind_kwargs (PStr s) = Inl (TypeError ''argument after ** must be a mapping'')"
| "bind_kwargs (PList xs) = Inl (TypeError ''argument after ** must be a mapping'')"

text \<open>
  The body of \<^verbatim>\<open>evaluate\<close> after the loop, statement by statement. It reads the two
  globals; a global that is still \<^verbatim>\<open>None\<close> makes the call on it raise. The tokenizer
  is called with \<^verbatim>\<open>return_tensors="pt", padding=True\<close>, the generation with the fixed
  \<^verbatim>\<open>GenerationConfig(num_beams=1, do_sample=False)\<close>, the decoding with
  \<^verbatim>\<open>skip_special_tokens=True\<close>: constants of the source, carried by the library
  fields. \<^verbatim>\<open>logging.info\<close> is not modelled.
\<close>

definition evaluate_generate ::
  "('m, 'p, 'k, 't) lib \<Rightarrow> ('m, 'p, 'k) globals \<Rightarrow> string list \<Rightarrow> pyval \<Rightarrow> pyval
     \<Rightarrow> exn + string list" where
  "evaluate_generate lib st prompts adapters max_new_tokens =
     (case tokenizer st of None \<Rightarrow> Inl (TypeError ''NoneType object is not callable'') | Some tok \<Rightarrow>
     (case tokenizer_call lib tok prompts of Inl e \<Rightarrow> Inl e | Inr inputs \<Rightarrow>
     (case input_ids_to_device lib inputs of Inl e \<Rightarrow> Inl e | Inr input_ids \<Rightarrow>
     (case attention_mask_to_device lib inputs of Inl e \<Rightarrow> Inl e | Inr attention_mask \<Rightarrow>
     (case model st of None \<Rightarrow> Inl (AttributeError ''generate'') | Some m \<Rightarrow>
     (case generate lib m input_ids attention_mask adapters max_new_tokens of
        Inl e \<Rightarrow> Inl e
      | Inr generation_output \<Rightarrow> batch_decode lib tok generation_output))))))"

text \<open>The whole body: the loop over \<open>instruction\<close>, then the statements above.\<close>

definition evaluate_body ::
  "('m, 'p, 'k, 't) lib \<Rightarrow> ('m, 'p, 'k) globals \<Rightarrow> pyval \<Rightarrow> pyval \<Rightarrow> pyval \<Rightarrow> pyval
     \<Rightarrow> exn + string list" where
  "evaluate_body lib st instruction adapters input max_new_tokens =
     (case py_iter instruction of
        Inl e \<Rightarrow> Inl e
      | Inr insts \<Rightarrow>
          evaluate_generate lib st (evaluate_prompts (builtin_str lib) input insts [])
            adapters max_new_tokens)"

definition evaluate ::
  "('m, 'p, 'k, 't) lib \<Rightarrow> ('m, 'p, 'k) globals \<Rightarrow> pyval \<Rightarrow> pyval \<Rightarrow> pyval
     \<Rightarrow> exn + string list" where
  "evaluate lib st instruction adapters generation_kwargs =
     (case bind_kwargs generation_kwargs of
        Inl e \<Rightarrow> Inl e
      | Inr (input, max_new_tokens) \<Rightarrow>
          evaluate_body lib st instruction adapters input max_new_tokens)"

subsection \<open>\<^verbatim>\<open>load_model\<close>\<close>

text \<open>
  \<^verbatim>\<open>if not tokenizer.pad_token: tokenizer.pad_token = '[PAD]'\<close>: the pad token is
  falsy when it is \<^verbatim>\<open>None\<close> or the empty string.
\<close>

definition load_model :: "('m, 'p, 'k, 't) lib \<Rightarrow> string option \<Rightarrow> exn + ('m \<times> 'k)" where
  "load_model lib model_id =
     (case llama_from_pretrained lib model_id of Inl e \<Rightarrow> Inl e | Inr m \<Rightarrow>
      (case tokenizer_from_pretrained lib model_id of Inl e \<Rightarrow> Inl e | Inr tok \<Rightarrow>
         Inr (m, if (case pad_token lib tok of None \<Rightarrow> True | Some s \<Rightarrow> s = [])
                 then set_pad_token lib tok ''[PAD]'' else tok)))"

subsection \<open>\<^verbatim>\<open>register_adapter\<close>\<close>

text \<open>
  The function rebinds the global \<open>model\<close> only in the \<^verbatim>\<open>else\<close> branch;
  \<^verbatim>\<open>load_adapter\<close> changes the \<^verbatim>\<open>PeftModel\<close> in place, which is the new value of
  the same global here. A call that raises leaves the globals as they were. The result
  pairs the globals after the call with the exception or the return value \<^verbatim>\<open>None\<close>.
\<close>

definition register_adapter ::
  "('m, 'p, 'k, 't) lib \<Rightarrow> ('m, 'p, 'k) globals \<Rightarrow> Input \<Rightarrow> ('m, 'p, 'k) globals \<times> (exn + unit)" where
  "register_adapter lib st inputs =
     (let adapter_name = get_property inputs ''name'';
          adapter_model_id_or_path = get_property inputs ''src''
      in case model st of
           Some (Peft p) \<Rightarrow>
             (case load_adapter lib p adapter_model_id_or_path adapter_name of
                Inl e \<Rightarrow> (st, Inl e)
              | Inr p' \<Rightarrow> (st\<lparr>model := Some (Peft p')\<rparr>, Inr ()))
         | other \<Rightarrow>
             (case peft_from_pretrained lib other adapter_model_id_or_path adapter_name of
                Inl e \<Rightarrow> (st, Inl e)
              | Inr p \<Rightarrow> (st\<lparr>model := Some (Peft p)\<rparr>, Inr ())))"

text \<open>Registering several adapters one after the other, stopping at the first exception.\<close>

fun register_adapters ::
  "('m, 'p, 'k, 't) lib \<Rightarrow> ('m, 'p, 'k) globals \<Rightarrow> Input list \<Rightarrow> ('m, 'p, 'k) globals \<times> (exn + unit)" where
  "register_adapters lib st [] = (st, Inr ())"
| "register_adapters lib st (i # rest) =
     (case register_adapter lib st i of
        (st', Inl e) \<Rightarrow> (st', Inl e)
      | (st', Inr u) \<Rightarrow> register_adapters lib st' rest)"

text \<open>
  What the registrations after the first are said to do, for comparison with
  \<open>register_adapters\<close>: each adds its adapter to the same \<^verbatim>\<open>PeftModel\<close> through
  \<^verbatim>\<open>load_adapter\<close>.
\<close>

fun load_adapters :: "('m, 'p, 'k, 't) lib \<Rightarrow> 'p \<Rightarrow> Input list \<Rightarrow> exn + 'p" where
  "load_adapters lib p [] = Inr p"
| "load_adapters lib p (i # rest) =
     (case load_adapter lib p (get_property i ''src'') (get_property i ''name'') of
        Inl e \<Rightarrow> Inl e
      | Inr p' \<Rightarrow> load_adapters lib p' rest)"

subsection \<open>\<^verbatim>\<open>handle\<close>\<close>

text \<open>
  \<^verbatim>\<open>if not model\<close>: the model classes define neither \<^verbatim>\<open>__bool__\<close> nor
  \<^verbatim>\<open>__len__\<close>, so the global is falsy exactly when it is \<^verbatim>\<open>None\<close>. The return
  value is \<^verbatim>\<open>None\<close> or an \<open>Output\<close>.
\<close>

definition handle ::
  "('m, 'p, 'k, 't) lib \<Rightarrow> ('m, 'p, 'k) globals \<Rightarrow> Input
     \<Rightarrow> ('m, 'p, 'k) globals \<times> (exn + Output option)" where
  "handle lib st inputs =
     (case (if model st = None
            then (case load_model lib (get_properties inputs ''model_id'') of
                    Inl e \<Rightarrow> Inl e
                  | Inr (m, tok) \<Rightarrow> Inr (st\<lparr>model := Some (Base m), tokenizer := Some tok\<rparr>))
            else Inr st) of
        Inl e \<Rightarrow> (st, Inl e)
      | Inr st1 \<Rightarrow>
          if is_empty inputs then (st1, Inr None)
          else
            (case get_as_json inputs of Inl e \<Rightarrow> (st1, Inl e) | Inr json_inputs \<Rightarrow>
            (case py_get json_inputs ''inputs'' PNone of Inl e \<Rightarrow> (st1, Inl e) | Inr sentence \<Rightarrow>
            (case py_get json_inputs ''adapters'' (PList []) of Inl e \<Rightarrow> (st1, Inl e) | Inr adapters \<Rightarrow>
            (case py_get json_inputs ''parameters'' (PDict []) of Inl e \<Rightarrow> (st1, Inl e) | Inr generation_kwargs \<Rightarrow>
            (case evaluate lib st1 sentence adapters generation_kwargs of
               Inl e \<Rightarrow> (st1, Inl e)
             | Inr outputs \<Rightarrow> (st1, Inr (Some (Output_add_as_json outputs)))))))))"


section \<open>The notebooks\<close>

text \<open>
  A notebook is its code cells from top to bottom; what it does to the cloud is the list
  of SDK calls it issues. \<open>Sdk name\<close> is a call that neither creates, polls, invokes
  nor deletes a hosted resource (session set-up, downloads, the artifact upload, image
  look-up); the other constructors are the calls on \<^verbatim>\<open>sm_client\<close>,
  \<^verbatim>\<open>smr_client\<close>, \<^verbatim>\<open>time\<close> and, in the third notebook, on the SDK's model and
  predictor objects. Shell lines (\<^verbatim>\<open>!pip\<close>, \<^verbatim>\<open>!tar\<close>) and \<^verbatim>\<open>print\<close> are not
  modelled.
\<close>

datatype call =
    Sdk string
  | Create_model string
  | Create_endpoint_config string string
  | Create_endpoint string string
  | Describe_endpoint string
  | Sleep nat
  | Invoke_endpoint string pyval
  | Delete_endpoint string
  | Delete_endpoint_config string
  | Delete_model string
  | Model_deploy
  | Predictor_predict pyval
  | Predictor_delete_model
  | Predictor_delete_endpoint

text \<open>
  The cloud is an oracle: \<open>response w i c\<close> is the exception that call \<open>c\<close> raises
  when it is issued as the \<open>i\<close>-th call of the run (\<open>None\<close> when it returns), and
  \<open>poll w k\<close> is what the \<open>k\<close>-th \<^verbatim>\<open>describe_endpoint\<close> gives: an exception or the
  \<^verbatim>\<open>EndpointStatus\<close> of the response.
\<close>

record world =
  response :: "nat \<Rightarrow> call \<Rightarrow> exn option"
  poll :: "nat \<Rightarrow> exn + string"

definition exec_call :: "world \<Rightarrow> call list \<Rightarrow> call \<Rightarrow> call list \<times> exn option" where
  "exec_call w tr c = (tr @ [c], response w (length tr) c)"

fun exec_calls :: "world \<Rightarrow> call list \<Rightarrow> call list \<Rightarrow> call list \<times> exn option" where
  "exec_calls w tr [] = (tr, None)"
| "exec_calls w tr (c # cs) =
     (case exec_call w tr c of
        (tr', Some e) \<Rightarrow> (tr', Some e)
      | (tr', None) \<Rightarrow> exec_calls w tr' cs)"

subsection \<open>The endpoint-readiness wait\<close>

text \<open>
  Both LoRA notebooks hold the same cell:
  \<^verbatim>\<open>
  resp = sm_client.describe_endpoint(EndpointName=endpoint_name)
  status = resp["EndpointStatus"]
  while status == "Creating":
      time.sleep(60)
      resp = sm_client.describe_endpoint(EndpointName=endpoint_name)
      status = resp["EndpointStatus"]
  \<close>
  The loop has no bound, so it is a partial function: \<open>None\<close> is a run that never
  leaves the loop. \<open>k\<close> counts the polls made so far.
\<close>

partial_function (option) wait_loop ::
  "world \<Rightarrow> string \<Rightarrow> nat \<Rightarrow> string \<Rightarrow> call list \<Rightarrow> (call list \<times> (exn + string)) option" where
  "wait_loop w endpoint_name k status tr =
     (if status = ''Creating'' then
        (case poll w k of
           Inl e \<Rightarrow> Some (tr @ [Sleep 60, Describe_endpoint endpoint_name], Inl e)
         | Inr status' \<Rightarrow>
             wait_loop w endpoint_name (Suc k) status'
               (tr @ [Sleep 60, Describe_endpoint endpoint_name]))
      else Some (tr, Inr status))"

definition wait_cell ::
  "world \<Rightarrow> string \<Rightarrow> call list \<Rightarrow> (call list \<times> (exn + string)) option" where
  "wait_cell w endpoint_name tr =
     (case poll w 0 of
        Inl e \<Rightarrow> Some (tr @ [Describe_endpoint endpoint_name], Inl e)
      | Inr status \<Rightarrow> wait_loop w endpoint_name 1 status (tr @ [Describe_endpoint endpoint_name]))"

subsection \<open>The role look-up of the function-calling notebook\<close>

text \<open>
  \<^verbatim>\<open>
  try:
      role = sagemaker.get_execution_role()
  except ValueError:
      iam = boto3.client('iam')
      role = iam.get_role(RoleName='sagemaker_execution_role')['Role']['Arn']
  \<close>
\<close>

definition role_cell :: "world \<Rightarrow> call list \<Rightarrow> call list \<times> exn option" where
  "role_cell w tr =
     (case exec_call w tr (Sdk ''sagemaker.get_execution_role'') of
        (tr', None) \<Rightarrow> (tr', None)
      | (tr', Some e) \<Rightarrow>
          (case e of
             ValueError msg \<Rightarrow> exec_calls w tr' [Sdk ''boto3.client'', Sdk ''iam.get_role'']
           | TypeError msg \<Rightarrow> (tr', Some e)
           | AttributeError msg \<Rightarrow> (tr', Some e)
           | OtherError cls msg \<Rightarrow> (tr', Some e)))"

subsection \<open>Running a notebook\<close>

text \<open>
  Cells run in order and the run stops at the first exception. The result is the list of
  calls issued and the exception that ended the run, if any; \<open>None\<close> is a run that never
  ends.
\<close>

datatype stmt = Call call | Wait_endpoint string | Role_setup

fun exec_stmt :: "world \<Rightarrow> stmt \<Rightarrow> call list \<Rightarrow> (call list \<times> exn option) option" where
  "exec_stmt w (Call c) tr = Some (exec_call w tr c)"
| "exec_stmt w (Wait_endpoint endpoint_name) tr =
     (case wait_cell w endpoint_name tr of
        None \<Rightarrow> None
      | Some (tr', Inl e) \<Rightarrow> Some (tr', Some e)
      | Some (tr', Inr status) \<Rightarrow> Some (tr', None))"
| "exec_stmt w Role_setup tr = Some (role_cell w tr)"

fun run :: "world \<Rightarrow> stmt list \<Rightarrow> call list \<Rightarrow> (call list \<times> exn option) option" where
  "run w [] tr = Some (tr, None)"
| "run w (s # ss) tr =
     (case exec_stmt w s tr of
        None \<Rightarrow> None
      | Some (tr', Some e) \<Rightarrow> Some (tr', Some e)
      | Some (tr', None) \<Rightarrow> run w ss tr')"

subsection \<open>The request bodies\<close>

definition lora_djl_body_1 :: pyval where
  "lora_djl_body_1 =
     PDict [(''inputs'', PList [PStr ''Tell me about Alpacas'',
               PStr (''Invente uma desculpa criativa pra dizer que n'' @ [CHR 0xE3]
                     @ ''o preciso ir '' @ [CHR 0xE0] @ '' festa.''),
               PStr ''Tell me about AWS'']),
            (''adapters'', PList [PStr ''eng_alpaca'', PStr ''portuguese_alpaca'',
               PStr ''eng_alpaca''])]"

definition lora_djl_body_2 :: pyval where
  "lora_djl_body_2 =
     PDict [(''inputs'', PList [PStr ''Tell me about Alpacas'',
               PStr ''Invente uma desculpa criativa'']),
            (''adapters'', PList [PStr ''eng_alpaca'', PStr ''portuguese_alpaca''])]"

definition lora_vllm_body :: pyval where
  "lora_vllm_body =
     PDict [(''inputs'', PList [PStr
               ''Piensa en una excusa creativa para decir que no necesito ir a la fiesta.'']),
            (''adapters'', PList [PStr ''es''])]"

definition chat_messages :: pyval where
  "chat_messages =
     PList [PDict [(''role'', PStr ''system''),
                   (''content'', PStr ''You are a helpful assistant.'')],
            PDict [(''role'', PStr ''user''),
                   (''content'', PStr ''What is deep learning?'')]]"

definition chat_parameters :: "(string \<times> pyval) list" where
  "chat_parameters =
     [(''model'', PStr ''Trelis/Meta-Llama-3-8B-Instruct-function-calling''),
      (''top_p'', PFloat (6 / 10)),
      (''temperature'', PFloat (9 / 10)),
      (''max_tokens'', PInt 512)]"

definition function_call_messages :: pyval where
  "function_call_messages =
     PList [PDict [(''role'', PStr ''function_metadata''),
                   (''content'', PStr ''FUNCTION_METADATA'')],
            PDict [(''role'', PStr ''function_call''),
                   (''content'', PStr (''{'' @ [CHR 0x0A] @ ''    '' @ [CHR 0x22] @ ''name''
                      @ [CHR 0x22] @ '': '' @ [CHR 0x22] @ ''get_current_weather'' @ [CHR 0x22]
                      @ '','' @ [CHR 0x0A] @ ''    '' @ [CHR 0x22] @ ''arguments'' @ [CHR 0x22]
                      @ '': {'' @ [CHR 0x0A] @ ''        '' @ [CHR 0x22] @ ''city'' @ [CHR 0x22]
                      @ '': '' @ [CHR 0x22] @ ''London'' @ [CHR 0x22] @ [CHR 0x0A] @ ''    }''
                      @ [CHR 0x0A] @ ''}''))],
            PDict [(''role'', PStr ''user''),
                   (''content'', PStr ''What is the current weather in London?'')]]"

definition function_call_parameters :: "(string \<times> pyval) list" where
  "function_call_parameters =
     [(''model'', PStr ''Trelis/Meta-Llama-3-8B-Instruct-function-calling''),
      (''top_p'', PFloat (6 / 10)),
      (''temperature'', PFloat (9 / 10)),
      (''max_tokens'', PInt 512),
      (''stop'', PList [PStr ''<|eot_id|>''])]"

text \<open>
  \<^verbatim>\<open>{"messages": messages, **parameters}\<close>: the keys of \<open>parameters\<close> follow
  \<open>messages\<close> at the top level of the same dictionary (none of them is
  \<open>messages\<close>, so nothing is overwritten).
\<close>

definition predict_body :: "pyval \<Rightarrow> (string \<times> pyval) list \<Rightarrow> pyval" where
  "predict_body messages parameters = PDict ((''messages'', messages) # parameters)"

subsection \<open>The three notebooks\<close>

text \<open>
  \<open>model_name\<close> is what \<^verbatim>\<open>name_from_base\<close> returned (a base name with a time
  stamp); the two other names are built from it by the f-strings of the source.
\<close>

definition lora_djl_notebook :: "string \<Rightarrow> stmt list" where
  "lora_djl_notebook model_name_acc =
     (let endpoint_config_name = model_name_acc @ ''-config'';
          endpoint_name = model_name_acc @ ''-endpoint''
      in [Call (Sdk ''snapshot_download''),
          Call (Sdk ''snapshot_download''),
          Call (Sdk ''sagemaker.session.Session''),
          Call (Sdk ''sess.default_bucket''),
          Call (Sdk ''sess.default_bucket''),
          Call (Sdk ''sagemaker.get_execution_role''),
          Call (Sdk ''sess.account_id''),
          Call (Sdk ''boto3.client''),
          Call (Sdk ''boto3.client''),
          Call (Sdk ''boto3.client''),
          Call (Sdk ''sess.upload_data''),
          Call (Sdk ''image_uris.retrieve''),
          Call (Sdk ''name_from_base''),
          Call (Sdk ''name_from_base''),
          Call (Create_model model_name_acc),
          Call (Create_endpoint_config endpoint_config_name model_name_acc),
          Call (Create_endpoint endpoint_name endpoint_config_name),
          Wait_endpoint endpoint_name,
          Call (Invoke_endpoint endpoint_name lora_djl_body_1),
          Call (Invoke_endpoint endpoint_name lora_djl_body_2),
          Call (Delete_endpoint endpoint_name),
          Call (Delete_endpoint_config endpoint_config_name),
          Call (Sdk ''image_uris.retrieve'')])"

definition lora_vllm_notebook :: "string \<Rightarrow> stmt list" where
  "lora_vllm_notebook model_name =
     (let endpoint_config_name = model_name @ ''-config'';
          endpoint_name = model_name @ ''-endpoint''
      in [Call (Sdk ''sagemaker.get_execution_role''),
          Call (Sdk ''sagemaker.session.Session''),
          Call (Sdk ''sess.default_bucket''),
          Call (Sdk ''sess.default_bucket''),
          Call (Sdk ''sess.account_id''),
          Call (Sdk ''boto3.client''),
          Call (Sdk ''boto3.client''),
          Call (Sdk ''boto3.client''),
          Call (Sdk ''snapshot_download''),
          Call (Sdk ''snapshot_download''),
          Call (Sdk ''snapshot_download''),
          Call (Sdk ''sess.upload_data''),
          Call (Sdk ''image_uris.retrieve''),
          Call (Sdk ''name_from_base''),
          Call (Create_model model_name),
          Call (Create_endpoint_config endpoint_config_name model_name),
          Call (Create_endpoint endpoint_name endpoint_config_name),
          Wait_endpoint endpoint_name,
          Call (Invoke_endpoint endpoint_name lora_vllm_body),
          Call (Delete_endpoint endpoint_name),
          Call (Delete_endpoint_config endpoint_config_name),
          Call (Delete_model model_name)])"

definition function_calling_notebook :: "stmt list" where
  "function_calling_notebook =
     [Call (Sdk ''sagemaker.Session''),
      Call (Sdk ''sess.default_bucket''),
      Role_setup,
      Call (Sdk ''sagemaker.Session''),
      Call (Sdk ''HuggingFaceModel''),
      Call Model_deploy,
      Call (Predictor_predict (predict_body chat_messages chat_parameters)),
      Call (Predictor_predict (predict_body function_call_messages function_call_parameters)),
      Call Predictor_delete_model,
      Call Predictor_delete_endpoint]"

subsection \<open>Phases of the orchestration\<close>




subsection \<open>Request bodies of a notebook and their shape\<close>

fun stmt_body :: "stmt \<Rightarrow> pyval option" where
  "stmt_body (Call (Invoke_endpoint n body)) = Some body"
| "stmt_body (Call (Predictor_predict body)) = Some body"
| "stmt_body s = None"

definition request_bodies :: "stmt list \<Rightarrow> pyval list" where
  "request_bodies nb = List.map_filter stmt_body nb"

definition has_key :: "(string \<times> pyval) list \<Rightarrow> string \<Rightarrow> bool" where
  "has_key kvs key = (map_of kvs key \<noteq> None)"

definition is_str :: "pyval \<Rightarrow> bool" where
  "is_str v = (case v of PStr s \<Rightarrow> True | _ \<Rightarrow> False)"

definition is_number :: "pyval \<Rightarrow> bool" where
  "is_number v = (case v of PInt i \<Rightarrow> True | PFloat r \<Rightarrow> True | _ \<Rightarrow> False)"

text \<open>
  The schema in the words of the specification: a messages array whose elements have
  role and content fields, and a generation-parameters object with the fields
  \<open>top_p\<close>, \<open>temperature\<close>, \<open>max_tokens\<close>, \<open>stop\<close> and \<open>adapters\<close>. The
  specification does not say where the parameters object sits, so both places a request
  could carry it are accepted: under the key \<open>parameters\<close> (where \<open>handle\<close> reads it)
  or spread over the top level of the body (where the third notebook puts it).
\<close>

definition is_message :: "pyval \<Rightarrow> bool" where
  "is_message v = (case v of PDict kvs \<Rightarrow> has_key kvs ''role'' \<and> has_key kvs ''content'' | _ \<Rightarrow> False)"

definition is_generation_parameters :: "pyval \<Rightarrow> bool" where
  "is_generation_parameters v =
     (case v of
        PDict kvs \<Rightarrow>
          list_all (has_key kvs) [''top_p'', ''temperature'', ''max_tokens'', ''stop'', ''adapters'']
      | _ \<Rightarrow> False)"

definition spec_request_schema :: "pyval \<Rightarrow> bool" where
  "spec_request_schema body =
     (case body of
        PDict kvs \<Rightarrow>
          (case map_of kvs ''messages'' of Some (PList ms) \<Rightarrow> list_all is_message ms | _ \<Rightarrow> False)
          \<and> (is_generation_parameters body
               \<or> (case map_of kvs ''parameters'' of Some ps \<Rightarrow> is_generation_parameters ps
                   | None \<Rightarrow> False))
      | _ \<Rightarrow> False)"

text \<open>
  The two shapes the notebooks do send. A LoRA request has exactly the keys
  \<open>inputs\<close> and \<open>adapters\<close>, two lists of strings of one length. A chat request has
  a list of messages, each with exactly a string \<open>role\<close> and a string \<open>content\<close>,
  and beside it, at the top level, \<open>model\<close>, \<open>top_p\<close>, \<open>temperature\<close>,
  \<open>max_tokens\<close> and possibly \<open>stop\<close>; it has neither \<open>adapters\<close> nor
  \<open>parameters\<close>.
\<close>

definition lora_request_schema :: "pyval \<Rightarrow> bool" where
  "lora_request_schema body =
     (case body of
        PDict kvs \<Rightarrow>
          map fst kvs = [''inputs'', ''adapters'']
          \<and> (case map_of kvs ''inputs'' of
               Some (PList xs) \<Rightarrow>
                 list_all is_str xs
                 \<and> (case map_of kvs ''adapters'' of
                      Some (PList ys) \<Rightarrow> list_all is_str ys \<and> length ys = length xs
                    | _ \<Rightarrow> False)
             | _ \<Rightarrow> False)
      | _ \<Rightarrow> False)"

definition chat_message :: "pyval \<Rightarrow> bool" where
  "chat_message v =
     (case v of
        PDict kvs \<Rightarrow> map fst kvs = [''role'', ''content''] \<and> list_all is_str (map snd kvs)
      | _ \<Rightarrow> False)"

definition chat_request_schema :: "pyval \<Rightarrow> bool" where
  "chat_request_schema body =
     (case body of
        PDict kvs \<Rightarrow>
          (case map_of kvs ''messages'' of Some (PList ms) \<Rightarrow> list_all chat_message ms | _ \<Rightarrow> False)
          \<and> (case map_of kvs ''model'' of Some v \<Rightarrow> is_str v | None \<Rightarrow> False)
          \<and> (case map_of kvs ''top_p'' of Some v \<Rightarrow> is_number v | None \<Rightarrow> False)
          \<and> (case map_of kvs ''temperature'' of Some v \<Rightarrow> is_number v | None \<Rightarrow> False)
          \<and> (case map_of kvs ''max_tokens'' of Some (PInt n) \<Rightarrow> True | _ \<Rightarrow> False)
          \<and> (case map_of kvs ''stop'' of
                None \<Rightarrow> True
              | Some (PList ss) \<Rightarrow> list_all is_str ss
              | _ \<Rightarrow> False)
          \<and> \<not> has_key kvs ''adapters''
          \<and> \<not> has_key kvs ''parameters''
      | _ \<Rightarrow> False)"

subsection \<open>Resources created and deleted by a run\<close>

datatype resource = Model string | Endpoint_config string | Endpoint string

fun creates :: "call \<Rightarrow> resource option" where
  "creates (Create_model n) = Some (Model n)"
| "creates (Create_endpoint_config n m) = Some (Endpoint_config n)"
| "creates (Create_endpoint n c) = Some (Endpoint n)"
| "creates c = None"

fun deletes :: "call \<Rightarrow> resource option" where
  "deletes (Delete_model n) = Some (Model n)"
| "deletes (Delete_endpoint_config n) = Some (Endpoint_config n)"
| "deletes (Delete_endpoint n) = Some (Endpoint n)"
| "deletes c = None"

text \<open>The resources a list of calls created and did not delete.\<close>

definition leftover :: "call list \<Rightarrow> resource list" where
  "leftover tr =
     filter (\<lambda>r. r \<notin> set (List.map_filter deletes tr)) (List.map_filter creates tr)"


section \<open>Sample environments\<close>

text \<open>
  A cloud in which no call raises and the endpoint reports \<^verbatim>\<open>Creating\<close> for the first
  \<open>n\<close> polls and \<open>s\<close> from then on.
\<close>

definition ready_after :: "nat \<Rightarrow> string \<Rightarrow> world" where
  "ready_after n s =
     \<lparr>response = (\<lambda>i c. None),
      poll = (\<lambda>k. if k < n then Inr ''Creating'' else Inr s)\<rparr>"


text \<open>
  A library that hands everything through: a model is its identifier, a tokenizer its
  pad token, a \<^verbatim>\<open>PeftModel\<close> the base identifier with the adapter names loaded so far,
  tensors are the prompts themselves, and generation returns its input.
\<close>

definition echo_lib :: "(string, string \<times> string option list, string option, string list) lib" where
  "echo_lib =
     \<lparr>builtin_str = (\<lambda>v. ''?''),
      llama_from_pretrained =
        (\<lambda>model_id. case model_id of None \<Rightarrow> Inl (OtherError ''OSError'' ''no model id'')
                      | Some i \<Rightarrow> Inr i),
      tokenizer_from_pretrained =
        (\<lambda>model_id. case model_id of None \<Rightarrow> Inl (OtherError ''OSError'' ''no model id'')
                      | Some i \<Rightarrow> Inr None),
      pad_token = (\<lambda>tok. tok),
      set_pad_token = (\<lambda>tok s. Some s),
      tokenizer_call = (\<lambda>tok prompts. Inr prompts),
      input_ids_to_device = (\<lambda>inputs. Inr inputs),
      attention_mask_to_device = (\<lambda>inputs. Inr inputs),
      generate = (\<lambda>m input_ids attention_mask adapters max_new_tokens. Inr input_ids),
      batch_decode = (\<lambda>tok generation_output. Inr generation_output),
      peft_from_pretrained =
        (\<lambda>m src name. case m of Some (Base b) \<Rightarrow> Inr (b, [name])
                        | _ \<Rightarrow> Inl (AttributeError ''named_modules'')),
      load_adapter = (\<lambda>p src name. Inr (fst p, snd p @ [name]))\<rparr>"

text \<open>A library in which every call raises the same exception.\<close>

definition raising_lib :: "exn \<Rightarrow> (unit, unit, unit, unit) lib" where
  "raising_lib e =
     \<lparr>builtin_str = (\<lambda>v. ''?''),
      llama_from_pretrained = (\<lambda>model_id. Inl e),
      tokenizer_from_pretrained = (\<lambda>model_id. Inl e),
      pad_token = (\<lambda>tok. None),
      set_pad_token = (\<lambda>tok s. tok),
      tokenizer_call = (\<lambda>tok prompts. Inl e),
      input_ids_to_device = (\<lambda>inputs. Inl e),
      attention_mask_to_device = (\<lambda>inputs. Inl e),
      generate = (\<lambda>m input_ids attention_mask adapters max_new_tokens. Inl e),
      batch_decode = (\<lambda>tok generation_output. Inl e),
      peft_from_pretrained = (\<lambda>m src name. Inl e),
      load_adapter = (\<lambda>p src name. Inl e)\<rparr>"

text \<open>The requests the model server makes of the handler of the first notebook.\<close>

definition djl_request :: "pyval \<Rightarrow> Input" where
  "djl_request body =
     \<lparr>get_properties = [''model_id'' \<mapsto> ''huggyllama/llama-7b''],
      is_empty = False,
      get_as_json = Inr body\<rparr>"

definition djl_empty_request :: Input where
  "djl_empty_request =
     \<lparr>get_properties = [''model_id'' \<mapsto> ''huggyllama/llama-7b''],
      is_empty = True,
      get_as_json = Inl (ValueError ''Expecting value'')\<rparr>"

definition djl_adapter :: "string \<Rightarrow> Input" where
  "djl_adapter name =
     \<lparr>get_properties = [''name'' \<mapsto> name, ''src'' \<mapsto> ''adapters/'' @ name],
      is_empty = True,
      get_as_json = Inl (ValueError ''Expecting value'')\<rparr>"


section \<open>The readiness wait terminates when the endpoint leaves \<^verbatim>\<open>Creating\<close>\<close>

lemma wait_loop_exit:
  "status \<noteq> ''Creating'' \<Longrightarrow> wait_loop w ep k status tr = Some (tr, Inr status)"
  by (subst wait_loop.simps) simp

lemma wait_loop_step:
  "poll w k = Inr status' \<Longrightarrow>
   wait_loop w ep k ''Creating'' tr =
     wait_loop w ep (Suc k) status' (tr @ [Sleep 60, Describe_endpoint ep])"
  by (subst wait_loop.simps) simp

lemma wait_loop_raise:
  "poll w k = Inl e \<Longrightarrow>
   wait_loop w ep k ''Creating'' tr = Some (tr @ [Sleep 60, Describe_endpoint ep], Inl e)"
  by (subst wait_loop.simps) simp

lemma wait_loop_leaves:
  assumes "\<forall>j<n. poll w (k + j) = Inr ''Creating''"
    and "poll w (k + n) = Inr s" and "s \<noteq> ''Creating''"
  shows "wait_loop w ep k ''Creating'' tr =
           Some (tr @ concat (replicate (Suc n) [Sleep 60, Describe_endpoint ep]), Inr s)"
  using assms
proof (induction n arbitrary: k tr)
  case 0
  then show ?case by (simp add: wait_loop_step wait_loop_exit)
next
  case (Suc n)
  from Suc.prems(1) have first: "poll w k = Inr ''Creating''" by (metis add.right_neutral zero_less_Suc)
  have rest: "\<forall>j<n. poll w (Suc k + j) = Inr ''Creating''"
  proof (intro allI impI)
    fix j assume "j < n"
    then have "Suc j < Suc n" by simp
    with Suc.prems(1) have "poll w (k + Suc j) = Inr ''Creating''" by blast
    then show "poll w (Suc k + j) = Inr ''Creating''" by simp
  qed
  from Suc.prems(2) have last: "poll w (Suc k + n) = Inr s" by simp
  show ?case
    using Suc.IH [OF rest last Suc.prems(3), of "tr @ [Sleep 60, Describe_endpoint ep]"]
    by (simp add: wait_loop_step [OF first])
qed

text \<open>
  Claim C1. The readiness wait of the two LoRA notebooks polls \<^verbatim>\<open>describe_endpoint\<close>
  once, then sleeps 60 seconds and polls again for as long as the status it last read is
  \<^verbatim>\<open>Creating\<close>, and leaves the loop at the first poll that returns another status. If
  the first \<open>n\<close> polls return \<^verbatim>\<open>Creating\<close> and the next one returns \<open>s\<close>, the
  cell terminates with status \<open>s\<close>, having issued exactly \<open>n + 1\<close> polls with a
  60-second sleep before each but the first.
\<close>

theorem wait_cell_polls_until_not_creating:
  assumes "\<forall>j<n. poll w j = Inr ''Creating''"
    and "poll w n = Inr s" and "s \<noteq> ''Creating''"
  shows "wait_cell w ep tr =
           Some (tr @ Describe_endpoint ep # concat (replicate n [Sleep 60, Describe_endpoint ep]),
                 Inr s)"
proof (cases n)
  case 0
  with assms show ?thesis by (simp add: wait_cell_def wait_loop_exit)
next
  case (Suc m)
  with assms(1) have first: "poll w 0 = Inr ''Creating''" by simp
  have rest: "\<forall>j<m. poll w (1 + j) = Inr ''Creating''" using assms(1) Suc by simp
  have last: "poll w (1 + m) = Inr s" using assms(2) Suc by simp
  show ?thesis
    using wait_loop_leaves [OF rest last assms(3), of ep "tr @ [Describe_endpoint ep]"] first Suc
    by (simp add: wait_cell_def)
qed

theorem wait_cell_polls_until_not_creating_witness:
  "poll (ready_after 2 ''InService'') 0 = Inr ''Creating''
   \<and> poll (ready_after 2 ''InService'') 1 = Inr ''Creating''
   \<and> poll (ready_after 2 ''InService'') 2 = Inr ''InService''
   \<and> ''InService'' \<noteq> ''Creating''
   \<and> wait_cell (ready_after 2 ''InService'') ''ep'' [] =
       Some ([Describe_endpoint ''ep'', Sleep 60, Describe_endpoint ''ep'', Sleep 60,
              Describe_endpoint ''ep''], Inr ''InService'')"
proof -
  have a: "\<forall>j<2. poll (ready_after 2 ''InService'') j = Inr ''Creating''" by (simp add: ready_after_def)
  have b: "poll (ready_after 2 ''InService'') 2 = Inr ''InService''" by (simp add: ready_after_def)
  have c: "''InService'' \<noteq> ''Creating''" by simp
  have d: "poll (ready_after 2 ''InService'') 0 = Inr ''Creating''"
    "poll (ready_after 2 ''InService'') 1 = Inr ''Creating''"
    by (simp_all add: ready_after_def)
  show ?thesis using wait_cell_polls_until_not_creating [OF a b c, of "''ep''" "[]"] b d
    by (simp add: numeral_2_eq_2)
qed

text \<open>While every poll returns \<^verbatim>\<open>Creating\<close> the cell never returns.\<close>

lemma wait_loop_forever:
  assumes "wait_loop w ep k status tr = Some y"
  shows "\<not> (status = ''Creating'' \<and> (\<forall>j. poll w j = Inr ''Creating''))"
proof (rule wait_loop.raw_induct
    [where P = "\<lambda>w ep k status tr y. \<not> (status = ''Creating'' \<and> (\<forall>j. poll w j = Inr ''Creating''))",
     OF _ assms])
  fix f w ep k status tr y
  assume IH: "\<And>w ep k status tr y. f w ep k status tr = Some y \<Longrightarrow>
                \<not> (status = ''Creating'' \<and> (\<forall>j. poll w j = Inr ''Creating''))"
    and step: "(if status = ''Creating'' then
        (case poll w k of
           Inl e \<Rightarrow> Some (tr @ [Sleep 60, Describe_endpoint ep], Inl e)
         | Inr status' \<Rightarrow> f w ep (Suc k) status' (tr @ [Sleep 60, Describe_endpoint ep]))
      else Some (tr, Inr status)) = Some y"
  show "\<not> (status = ''Creating'' \<and> (\<forall>j. poll w j = Inr ''Creating''))"
  proof
    assume a: "status = ''Creating'' \<and> (\<forall>j. poll w j = Inr ''Creating'')"
    then have "poll w k = Inr ''Creating''" by blast
    with a step have "f w ep (Suc k) ''Creating'' (tr @ [Sleep 60, Describe_endpoint ep]) = Some y"
      by simp
    from IH [OF this] a show False by blast
  qed
qed

lemma wait_cell_forever:
  "\<forall>j. poll w j = Inr ''Creating'' \<Longrightarrow> wait_cell w ep tr = None"
  using wait_loop_forever [of w ep 1 "''Creating''" "tr @ [Describe_endpoint ep]"]
  by (cases "wait_loop w ep 1 ''Creating'' (tr @ [Describe_endpoint ep])") (auto simp: wait_cell_def)



section \<open>The order of the orchestration\<close>











subsection \<open>Runs in which no call raises\<close>

lemma ready_after_wait:
  "s \<noteq> ''Creating'' \<Longrightarrow>
   wait_cell (ready_after n s) ep tr =
     Some (tr @ Describe_endpoint ep # concat (replicate n [Sleep 60, Describe_endpoint ep]), Inr s)"
proof (cases n)
  case 0
  assume "s \<noteq> ''Creating''"
  with 0 show ?thesis by (simp add: wait_cell_def ready_after_def wait_loop_exit)
next
  case (Suc m)
  assume s: "s \<noteq> ''Creating''"
  have rest: "\<forall>j<m. poll (ready_after n s) (1 + j) = Inr ''Creating''"
    using Suc by (simp add: ready_after_def)
  have last: "poll (ready_after n s) (1 + m) = Inr s"
    using Suc by (simp add: ready_after_def)
  show ?thesis
    using wait_loop_leaves [OF rest last s, of ep "tr @ [Describe_endpoint ep]"] Suc
    by (simp add: wait_cell_def ready_after_def)
qed

lemma ready_after_call:
  "exec_stmt (ready_after n s) (Call c) tr = Some (tr @ [c], None)"
  by (simp add: exec_call_def ready_after_def)

lemma ready_after_wait_stmt:
  "s \<noteq> ''Creating'' \<Longrightarrow>
   exec_stmt (ready_after n s) (Wait_endpoint ep) tr =
     Some (tr @ Describe_endpoint ep # concat (replicate n [Sleep 60, Describe_endpoint ep]), None)"
  by (simp add: ready_after_wait)

lemma lora_djl_run_trace:
  assumes "s \<noteq> ''Creating''"
  shows "run (ready_after n s) (lora_djl_notebook mn) [] =
     Some ([Sdk ''snapshot_download'', Sdk ''snapshot_download'', Sdk ''sagemaker.session.Session'',
        Sdk ''sess.default_bucket'', Sdk ''sess.default_bucket'',
        Sdk ''sagemaker.get_execution_role'', Sdk ''sess.account_id'', Sdk ''boto3.client'',
        Sdk ''boto3.client'', Sdk ''boto3.client'', Sdk ''sess.upload_data'',
        Sdk ''image_uris.retrieve'', Sdk ''name_from_base'', Sdk ''name_from_base'',
        Create_model mn, Create_endpoint_config (mn @ ''-config'') mn,
        Create_endpoint (mn @ ''-endpoint'') (mn @ ''-config'')]
        @ Describe_endpoint (mn @ ''-endpoint'')
          # concat (replicate n [Sleep 60, Describe_endpoint (mn @ ''-endpoint'')])
        @ [Invoke_endpoint (mn @ ''-endpoint'') lora_djl_body_1,
          Invoke_endpoint (mn @ ''-endpoint'') lora_djl_body_2,
          Delete_endpoint (mn @ ''-endpoint''), Delete_endpoint_config (mn @ ''-config''),
          Sdk ''image_uris.retrieve''], None)"
  using assms
  by (simp add: lora_djl_notebook_def Let_def ready_after_call ready_after_wait_stmt
      del: exec_stmt.simps)

lemma lora_vllm_run_trace:
  assumes "s \<noteq> ''Creating''"
  shows "run (ready_after n s) (lora_vllm_notebook mn) [] =
     Some ([Sdk ''sagemaker.get_execution_role'', Sdk ''sagemaker.session.Session'',
        Sdk ''sess.default_bucket'', Sdk ''sess.default_bucket'', Sdk ''sess.account_id'',
        Sdk ''boto3.client'', Sdk ''boto3.client'', Sdk ''boto3.client'',
        Sdk ''snapshot_download'', Sdk ''snapshot_download'', Sdk ''snapshot_download'',
        Sdk ''sess.upload_data'', Sdk ''image_uris.retrieve'', Sdk ''name_from_base'',
        Create_model mn, Create_endpoint_config (mn @ ''-config'') mn,
        Create_endpoint (mn @ ''-endpoint'') (mn @ ''-config'')]
        @ Describe_endpoint (mn @ ''-endpoint'')
          # concat (replicate n [Sleep 60, Describe_endpoint (mn @ ''-endpoint'')])
        @ [Invoke_endpoint (mn @ ''-endpoint'') lora_vllm_body,
          Delete_endpoint (mn @ ''-endpoint''), Delete_endpoint_config (mn @ ''-config''),
          Delete_model mn], None)"
  using assms
  by (simp add: lora_vllm_notebook_def Let_def ready_after_call ready_after_wait_stmt
      del: exec_stmt.simps)



section \<open>Resources left behind\<close>

lemma leftover_polls:
  "leftover (a @ Describe_endpoint ep # concat (replicate n [Sleep 60, Describe_endpoint ep]) @ b)
     = leftover (a @ b)"
proof -
  have c: "List.map_filter creates (concat (replicate n [Sleep 60, Describe_endpoint ep])) = []"
    by (induction n) (simp_all add: List.map_filter_def)
  have d: "List.map_filter deletes (concat (replicate n [Sleep 60, Describe_endpoint ep])) = []"
    by (induction n) (simp_all add: List.map_filter_def)
  have app: "\<And>f xs ys. List.map_filter f (xs @ ys) = List.map_filter f xs @ List.map_filter f ys"
    by (simp add: List.map_filter_def)
  have c1: "\<And>f x xs. List.map_filter f (x # xs) =
              (case f x of None \<Rightarrow> [] | Some y \<Rightarrow> [y]) @ List.map_filter f xs"
    by (simp add: List.map_filter_def split: option.splits)
  show ?thesis
    unfolding leftover_def app c1 c d by simp
qed

lemma lora_djl_leftover:
  "leftover ([Sdk ''snapshot_download'', Sdk ''snapshot_download'', Sdk ''sagemaker.session.Session'',
        Sdk ''sess.default_bucket'', Sdk ''sess.default_bucket'',
        Sdk ''sagemaker.get_execution_role'', Sdk ''sess.account_id'', Sdk ''boto3.client'',
        Sdk ''boto3.client'', Sdk ''boto3.client'', Sdk ''sess.upload_data'',
        Sdk ''image_uris.retrieve'', Sdk ''name_from_base'', Sdk ''name_from_base'',
        Create_model mn, Create_endpoint_config (mn @ ''-config'') mn,
        Create_endpoint (mn @ ''-endpoint'') (mn @ ''-config'')]
        @ Describe_endpoint (mn @ ''-endpoint'')
          # concat (replicate n [Sleep 60, Describe_endpoint (mn @ ''-endpoint'')])
        @ [Invoke_endpoint (mn @ ''-endpoint'') lora_djl_body_1,
          Invoke_endpoint (mn @ ''-endpoint'') lora_djl_body_2,
          Delete_endpoint (mn @ ''-endpoint''), Delete_endpoint_config (mn @ ''-config''),
          Sdk ''image_uris.retrieve''])
   = [Model mn]"
  unfolding leftover_polls by (simp add: leftover_def List.map_filter_def)

lemma lora_vllm_leftover:
  "leftover ([Sdk ''sagemaker.get_execution_role'', Sdk ''sagemaker.session.Session'',
        Sdk ''sess.default_bucket'', Sdk ''sess.default_bucket'', Sdk ''sess.account_id'',
        Sdk ''boto3.client'', Sdk ''boto3.client'', Sdk ''boto3.client'',
        Sdk ''snapshot_download'', Sdk ''snapshot_download'', Sdk ''snapshot_download'',
        Sdk ''sess.upload_data'', Sdk ''image_uris.retrieve'', Sdk ''name_from_base'',
        Create_model mn, Create_endpoint_config (mn @ ''-config'') mn,
        Create_endpoint (mn @ ''-endpoint'') (mn @ ''-config'')]
        @ Describe_endpoint (mn @ ''-endpoint'')
          # concat (replicate n [Sleep 60, Describe_endpoint (mn @ ''-endpoint'')])
        @ [Invoke_endpoint (mn @ ''-endpoint'') lora_vllm_body,
          Delete_endpoint (mn @ ''-endpoint''), Delete_endpoint_config (mn @ ''-config''),
          Delete_model mn])
   = []"
  unfolding leftover_polls by (simp add: leftover_def List.map_filter_def)

text \<open>
  The second LoRA notebook deletes the endpoint, its configuration and the model: a run
  in which nothing raises leaves no resource behind.
\<close>

lemma lora_vllm_run_cleans_up:
  assumes "s \<noteq> ''Creating''"
  shows "\<exists>tr. run (ready_after n s) (lora_vllm_notebook mn) [] = Some (tr, None) \<and> leftover tr = []"
  using lora_vllm_run_trace [OF assms, of n mn] lora_vllm_leftover [of mn n] by (intro exI conjI)

lemma lora_djl_run_leaves_model:
  assumes "s \<noteq> ''Creating''"
  shows "\<exists>tr. run (ready_after n s) (lora_djl_notebook mn) [] = Some (tr, None)
           \<and> leftover tr = [Model mn]"
  using lora_djl_run_trace [OF assms, of n mn] lora_djl_leftover [of mn n] by (intro exI conjI)

text \<open>
  Claim C5. Every notebook is to delete each model, endpoint configuration and endpoint
  it created. The first LoRA notebook does not: run as recorded in the notebook (eight
  polls answer \<^verbatim>\<open>Creating\<close>, the ninth \<^verbatim>\<open>InService\<close>, no call raises), it ends
  normally and the model it created is still there.
\<close>

theorem first_lora_notebook_leaves_model_behind:
  "map_option (\<lambda>(tr, r). (r, leftover tr))
     (run (ready_after 8 ''InService'')
        (lora_djl_notebook ''g5-lora-multi-adapter-2024-03-20-17-55-22-611'') [])
   = Some (None, [Model ''g5-lora-multi-adapter-2024-03-20-17-55-22-611''])"
proof -
  have "''InService'' \<noteq> ''Creating''" by simp
  from lora_djl_run_leaves_model [OF this, of 8 "''g5-lora-multi-adapter-2024-03-20-17-55-22-611''"]
  show ?thesis by auto
qed


section \<open>The prompts that \<^verbatim>\<open>evaluate\<close> builds\<close>

lemma evaluate_prompts_acc:
  "evaluate_prompts f inp xs acc = acc @ map (\<lambda>i. generate_prompt f i inp) xs"
  by (induction xs arbitrary: acc) simp_all

text \<open>
  Where the marker \<^verbatim>\<open>### Input:\<close> can sit in a prompt: the fixed text of the
  instruction-only template does not hold it, and no occurrence can straddle the border
  between the fixed text and the instruction.
\<close>

lemma marker_splits:
  "''### Input:'' = p1 @ p2 \<Longrightarrow>
     (p1 = [] \<and> p2 = ''### Input:'') \<or> (p1 = ''### Input:'' \<and> p2 = []) \<or>
     (p1 \<in> {''#'', ''##'', ''###'', ''### '', ''### I'', ''### In'', ''### Inp'', ''### Inpu'',
             ''### Input''}
      \<and> p2 \<in> {''## Input:'', ''# Input:'', '' Input:'', ''Input:'', ''nput:'', ''put:'', ''ut:'',
               ''t:'', '':''})"
  by (auto simp: Cons_eq_append_conv)

lemma marker_not_across_response:
  assumes "\<not> sublist ''### Input:'' x"
  shows "\<not> sublist ''### Input:'' (x @ '' ### Response:'')"
proof
  assume "sublist ''### Input:'' (x @ '' ### Response:'')"
  then consider "sublist ''### Input:'' x" | "sublist ''### Input:'' '' ### Response:''"
    | p1 p2 where "''### Input:'' = p1 @ p2" "suffix p1 x" "prefix p2 '' ### Response:''"
    by (auto simp: sublist_append)
  then show False
  proof cases
    case 1
    with assms show False by simp
  next
    case 2
    then show False by (simp add: sublist_Cons_right)
  next
    case 3
    from marker_splits [OF 3(1)] 3(2,3) assms show False
      by (auto dest: suffix_imp_sublist)
  qed
qed

lemma marker_not_in_instruction_only:
  assumes "\<not> sublist ''### Input:'' x"
  shows "\<not> sublist ''### Input:''
           (''Below is an instruction that describes a task. Write a response that appropriately completes the ''
            @ [CHR 0x0A] @ ''        request.### Instruction: '' @ x @ '' ### Response:'')"
    (is "\<not> sublist ?P (?D1 @ ?nl @ ?D2 @ x @ ?E)")
proof
  let ?D = "?D1 @ ?nl @ ?D2"
  have tail: "\<not> sublist ?P (x @ ?E)" by (rule marker_not_across_response [OF assms])
  assume "sublist ?P (?D1 @ ?nl @ ?D2 @ x @ ?E)"
  then have "sublist ?P (?D @ (x @ ?E))" by simp
  then consider "sublist ?P ?D" | "sublist ?P (x @ ?E)"
    | p1 p2 where "?P = p1 @ p2" "suffix p1 ?D" "prefix p2 (x @ ?E)"
    unfolding sublist_append [of ?P ?D "x @ ?E"] by blast
  then show False
  proof cases
    case 1
    then show False by (simp add: sublist_Cons_right)
  next
    case 2
    with tail show False by simp
  next
    case 3
    from marker_splits [OF 3(1)] show False
    proof (elim disjE conjE)
      assume "p1 = []" "p2 = ?P"
      with 3(3) have "sublist ?P (x @ ?E)" by (auto dest: prefix_imp_sublist)
      with tail show False by simp
    next
      assume "p1 = ?P" "p2 = []"
      with 3(2) show False by (simp add: suffix_to_prefix)
    next
      assume "p1 \<in> {''#'', ''##'', ''###'', ''### '', ''### I'', ''### In'', ''### Inp'', ''### Inpu'',
                     ''### Input''}"
      with 3(2) show False by (auto simp: suffix_to_prefix)
    qed
  qed
qed

lemma marker_in_with_input:
  "sublist ''### Input:'' (a @ x @ '' ### Input: '' @ y @ c)"
proof -
  have "a @ x @ '' ### Input: '' @ y @ c = (a @ x @ '' '') @ ''### Input:'' @ ('' '' @ y @ c)"
    by simp
  then show ?thesis unfolding sublist_def by blast
qed

lemma generate_prompt_marker:
  assumes n: "\<not> sublist ''### Input:'' (format_value py_str instruction)"
  shows "sublist ''### Input:'' (generate_prompt py_str instruction input) \<longleftrightarrow> truthy input"
proof (cases "truthy input")
  case True
  then have eq: "generate_prompt py_str instruction input =
      (''Below is an instruction that describes a task, paired with an input that provides further context. ''
       @ [CHR 0x0A]
       @ ''        Write a response that appropriately completes the request. ### Instruction: '')
      @ format_value py_str instruction @ '' ### Input: '' @ format_value py_str input
      @ ('' '' @ [CHR 0x0A] @ ''        ### Response:'')"
    by (simp add: generate_prompt_def)
  have "sublist ''### Input:'' (generate_prompt py_str instruction input)"
    unfolding eq by (rule marker_in_with_input)
  with True show ?thesis by blast
next
  case False
  then have eq: "generate_prompt py_str instruction input =
      ''Below is an instruction that describes a task. Write a response that appropriately completes the ''
      @ [CHR 0x0A] @ ''        request.### Instruction: '' @ format_value py_str instruction
      @ '' ### Response:''"
    by (simp add: generate_prompt_def)
  have "\<not> sublist ''### Input:'' (generate_prompt py_str instruction input)"
    unfolding eq by (rule marker_not_in_instruction_only [OF n])
  with False show ?thesis by blast
qed

lemma evaluate_body_list:
  "evaluate_body lib st (PList instructions) adapters input max_new_tokens =
     evaluate_generate lib st
       (map (\<lambda>inp. generate_prompt (builtin_str lib) inp input) instructions)
       adapters max_new_tokens"
  by (simp add: evaluate_body_def evaluate_prompts_acc)

text \<open>
  Claim C8. For a list of instructions and a shared input, the loop of \<^verbatim>\<open>evaluate\<close>
  builds one prompt per instruction, in the order of the list, the \<open>i\<close>-th being
  \<^verbatim>\<open>generate_prompt\<close> of the \<open>i\<close>-th instruction and the shared input, and this
  list is what the rest of \<^verbatim>\<open>evaluate\<close> hands to the tokenizer. For an instruction
  whose own text does not hold the marker, the prompt holds \<^verbatim>\<open>### Input:\<close> exactly
  when the input is truthy: a truthy input selects the template with the input section,
  any other input the instruction-only template.
\<close>

theorem evaluate_builds_one_prompt_per_instruction:
  "evaluate_prompts py_str input instructions [] =
     map (\<lambda>inp. generate_prompt py_str inp input) instructions
   \<and> length (evaluate_prompts py_str input instructions []) = length instructions
   \<and> (\<forall>i<length instructions.
         evaluate_prompts py_str input instructions [] ! i =
           generate_prompt py_str (instructions ! i) input)
   \<and> evaluate_body lib st (PList instructions) adapters input max_new_tokens =
       evaluate_generate lib st
         (map (\<lambda>inp. generate_prompt (builtin_str lib) inp input) instructions)
         adapters max_new_tokens
   \<and> (\<not> sublist ''### Input:'' (format_value py_str instruction) \<longrightarrow>
         (sublist ''### Input:'' (generate_prompt py_str instruction input) \<longleftrightarrow> truthy input))
   \<and> (truthy input \<longrightarrow>
         generate_prompt py_str instruction input =
           ''Below is an instruction that describes a task, paired with an input that provides further context. ''
           @ [CHR 0x0A]
           @ ''        Write a response that appropriately completes the request. ### Instruction: ''
           @ format_value py_str instruction @ '' ### Input: '' @ format_value py_str input
           @ '' '' @ [CHR 0x0A] @ ''        ### Response:'')
   \<and> (\<not> truthy input \<longrightarrow>
         generate_prompt py_str instruction input =
           ''Below is an instruction that describes a task. Write a response that appropriately completes the ''
           @ [CHR 0x0A] @ ''        request.### Instruction: '' @ format_value py_str instruction
           @ '' ### Response:'')"
proof (intro conjI allI impI)
  show m: "evaluate_prompts py_str input instructions [] =
             map (\<lambda>inp. generate_prompt py_str inp input) instructions"
    by (simp add: evaluate_prompts_acc)
  show "length (evaluate_prompts py_str input instructions []) = length instructions"
    by (simp add: m)
  show "evaluate_body lib st (PList instructions) adapters input max_new_tokens =
          evaluate_generate lib st
            (map (\<lambda>inp. generate_prompt (builtin_str lib) inp input) instructions)
            adapters max_new_tokens"
    by (rule evaluate_body_list)
next
  fix i assume "i < length instructions"
  then show "evaluate_prompts py_str input instructions [] ! i =
               generate_prompt py_str (instructions ! i) input"
    by (simp add: evaluate_prompts_acc)
next
  assume "\<not> sublist ''### Input:'' (format_value py_str instruction)"
  then show "sublist ''### Input:'' (generate_prompt py_str instruction input) \<longleftrightarrow> truthy input"
    by (rule generate_prompt_marker)
next
  assume "truthy input"
  then show "generate_prompt py_str instruction input =
           ''Below is an instruction that describes a task, paired with an input that provides further context. ''
           @ [CHR 0x0A]
           @ ''        Write a response that appropriately completes the request. ### Instruction: ''
           @ format_value py_str instruction @ '' ### Input: '' @ format_value py_str input
           @ '' '' @ [CHR 0x0A] @ ''        ### Response:''"
    by (simp add: generate_prompt_def)
next
  assume "\<not> truthy input"
  then show "generate_prompt py_str instruction input =
           ''Below is an instruction that describes a task. Write a response that appropriately completes the ''
           @ [CHR 0x0A] @ ''        request.### Instruction: '' @ format_value py_str instruction
           @ '' ### Response:''"
    by (simp add: generate_prompt_def)
qed

theorem evaluate_builds_one_prompt_per_instruction_witness:
  "evaluate_prompts (\<lambda>v. ''?'') PNone [PStr ''Tell me about Alpacas'', PStr ''Tell me about AWS''] [] =
     [''Below is an instruction that describes a task. Write a response that appropriately completes the ''
          @ [CHR 0x0A] @ ''        request.### Instruction: Tell me about Alpacas ### Response:'',
      ''Below is an instruction that describes a task. Write a response that appropriately completes the ''
          @ [CHR 0x0A] @ ''        request.### Instruction: Tell me about AWS ### Response:'']
   \<and> (1::nat) < length [PStr ''Tell me about Alpacas'', PStr ''Tell me about AWS'']
   \<and> evaluate_prompts (\<lambda>v. ''?'') PNone [PStr ''Tell me about Alpacas'', PStr ''Tell me about AWS''] [] ! 1
       = generate_prompt (\<lambda>v. ''?'') (PStr ''Tell me about AWS'') PNone
   \<and> \<not> sublist ''### Input:'' (format_value (\<lambda>v. ''?'') (PStr ''Tell me about AWS''))
   \<and> \<not> truthy PNone
   \<and> \<not> sublist ''### Input:'' (generate_prompt (\<lambda>v. ''?'') (PStr ''Tell me about AWS'') PNone)
   \<and> truthy (PStr ''AWS is a cloud provider'')
   \<and> sublist ''### Input:''
        (generate_prompt (\<lambda>v. ''?'') (PStr ''Tell me about AWS'') (PStr ''AWS is a cloud provider''))"
proof -
  let ?f = "\<lambda>v::pyval. ''?''"
  let ?is = "[PStr ''Tell me about Alpacas'', PStr ''Tell me about AWS'']"
  have n: "\<not> sublist ''### Input:'' (format_value ?f (PStr ''Tell me about AWS''))"
    by (simp add: format_value_def sublist_Cons_right)
  have l: "(1::nat) < length ?is" by simp
  note t1 = evaluate_builds_one_prompt_per_instruction
    [of ?f PNone ?is echo_lib "\<lparr>model = None, tokenizer = None\<rparr>" PNone PNone "PStr ''Tell me about AWS''"]
  note t2 = evaluate_builds_one_prompt_per_instruction
    [of ?f "PStr ''AWS is a cloud provider''" ?is echo_lib "\<lparr>model = None, tokenizer = None\<rparr>" PNone
      PNone "PStr ''Tell me about AWS''"]
  from t1 have a: "evaluate_prompts ?f PNone ?is [] = map (\<lambda>inp. generate_prompt ?f inp PNone) ?is"
    by blast
  from t1 l have b: "evaluate_prompts ?f PNone ?is [] ! 1 = generate_prompt ?f (?is ! 1) PNone"
    by blast
  from t1 n have c: "sublist ''### Input:'' (generate_prompt ?f (PStr ''Tell me about AWS'') PNone)
                      \<longleftrightarrow> truthy PNone" by blast
  from t2 n have d: "sublist ''### Input:''
        (generate_prompt ?f (PStr ''Tell me about AWS'') (PStr ''AWS is a cloud provider''))
                      \<longleftrightarrow> truthy (PStr ''AWS is a cloud provider'')" by blast
  have e: "map (\<lambda>inp. generate_prompt ?f inp PNone) ?is =
     [''Below is an instruction that describes a task. Write a response that appropriately completes the ''
          @ [CHR 0x0A] @ ''        request.### Instruction: Tell me about Alpacas ### Response:'',
      ''Below is an instruction that describes a task. Write a response that appropriately completes the ''
          @ [CHR 0x0A] @ ''        request.### Instruction: Tell me about AWS ### Response:'']"
    by (simp add: generate_prompt_def format_value_def)
  from a b c d e n l show ?thesis by simp
qed


section \<open>Registering adapters\<close>

lemma register_adapter_peft:
  "model st = Some (Peft q) \<Longrightarrow>
   register_adapter lib st i =
     (case load_adapter lib q (get_property i ''src'') (get_property i ''name'') of
        Inl e \<Rightarrow> (st, Inl e)
      | Inr p \<Rightarrow> (st\<lparr>model := Some (Peft p)\<rparr>, Inr ()))"
  by (simp add: register_adapter_def)

lemma register_adapter_not_peft:
  "model st = None \<or> model st = Some (Base b) \<Longrightarrow>
   register_adapter lib st i =
     (case peft_from_pretrained lib (model st) (get_property i ''src'') (get_property i ''name'') of
        Inl e \<Rightarrow> (st, Inl e)
      | Inr p \<Rightarrow> (st\<lparr>model := Some (Peft p)\<rparr>, Inr ()))"
  by (auto simp: register_adapter_def)

text \<open>Whatever the global was, after a call that returns it is a \<^verbatim>\<open>PeftModel\<close>.\<close>

lemma register_adapter_returns_peft:
  assumes "register_adapter lib st i = (st', Inr ())"
  shows "\<exists>p. st' = st\<lparr>model := Some (Peft p)\<rparr>"
proof (cases "model st")
  case None
  with assms show ?thesis
    by (auto simp: register_adapter_not_peft split: sum.splits)
next
  case (Some m)
  show ?thesis
  proof (cases m)
    case (Base b)
    with Some assms show ?thesis
      by (auto simp: register_adapter_not_peft split: sum.splits)
  next
    case (Peft q)
    with Some assms show ?thesis
      by (auto simp: register_adapter_peft split: sum.splits)
  qed
qed

lemma register_adapters_peft:
  assumes "model st = Some (Peft q)" and "register_adapters lib st rest = (st', Inr ())"
  shows "\<exists>p. load_adapters lib q rest = Inr p \<and> st' = st\<lparr>model := Some (Peft p)\<rparr>"
  using assms
proof (induction rest arbitrary: st q)
  case Nil
  then show ?case by simp
next
  case (Cons i rest)
  from Cons.prems(2) obtain st1 where
    s1: "register_adapter lib st i = (st1, Inr ())"
    and r: "register_adapters lib st1 rest = (st', Inr ())"
    by (auto split: prod.splits sum.splits)
  from s1 Cons.prems(1) obtain p1 where
    l: "load_adapter lib q (get_property i ''src'') (get_property i ''name'') = Inr p1"
    and st1: "st1 = st\<lparr>model := Some (Peft p1)\<rparr>"
    by (auto simp: register_adapter_peft split: sum.splits)
  from st1 have m1: "model st1 = Some (Peft p1)" by simp
  from Cons.IH [OF m1 r] obtain p where
    "load_adapters lib p1 rest = Inr p" "st' = st1\<lparr>model := Some (Peft p)\<rparr>" by blast
  with l st1 show ?case by simp
qed

text \<open>
  Claim C9. Starting from the loaded base model, a series of registrations that all
  return wraps the base model once, in the first call, through
  \<^verbatim>\<open>PeftModel.from_pretrained\<close> with that call's adapter; every later call adds its
  adapter to that same \<^verbatim>\<open>PeftModel\<close> through \<^verbatim>\<open>load_adapter\<close>; and the global model
  at the end is that \<^verbatim>\<open>PeftModel\<close>, the tokenizer untouched.
\<close>

theorem register_adapter_wraps_base_once:
  assumes "model st = Some (Base b)"
    and "register_adapters lib st (i # rest) = (st', Inr ())"
  shows "\<exists>p0 p. peft_from_pretrained lib (Some (Base b))
                   (get_property i ''src'') (get_property i ''name'') = Inr p0
           \<and> load_adapters lib p0 rest = Inr p
           \<and> st' = st\<lparr>model := Some (Peft p)\<rparr>"
proof -
  from assms(2) obtain st1 where
    s1: "register_adapter lib st i = (st1, Inr ())"
    and r: "register_adapters lib st1 rest = (st', Inr ())"
    by (auto split: prod.splits sum.splits)
  from s1 assms(1) obtain p0 where
    w: "peft_from_pretrained lib (Some (Base b))
          (get_property i ''src'') (get_property i ''name'') = Inr p0"
    and st1: "st1 = st\<lparr>model := Some (Peft p0)\<rparr>"
    by (auto simp: register_adapter_not_peft [of st b] split: sum.splits)
  from st1 have m1: "model st1 = Some (Peft p0)" by simp
  from register_adapters_peft [OF m1 r] obtain p where
    "load_adapters lib p0 rest = Inr p" "st' = st1\<lparr>model := Some (Peft p)\<rparr>" by blast
  with w st1 show ?thesis by simp
qed

theorem register_adapter_wraps_base_once_witness:
  "model \<lparr>model = Some (Base ''huggyllama/llama-7b''), tokenizer = Some (Some ''[PAD]'')\<rparr>
     = Some (Base ''huggyllama/llama-7b'')
   \<and> register_adapters echo_lib
        \<lparr>model = Some (Base ''huggyllama/llama-7b''), tokenizer = Some (Some ''[PAD]'')\<rparr>
        [djl_adapter ''eng_alpaca'', djl_adapter ''portuguese_alpaca'']
      = (\<lparr>model = Some (Peft (''huggyllama/llama-7b'',
                                 [Some ''eng_alpaca'', Some ''portuguese_alpaca''])),
          tokenizer = Some (Some ''[PAD]'')\<rparr>, Inr ())
   \<and> (\<exists>p0 p. peft_from_pretrained echo_lib (Some (Base ''huggyllama/llama-7b''))
                 (get_property (djl_adapter ''eng_alpaca'') ''src'')
                 (get_property (djl_adapter ''eng_alpaca'') ''name'') = Inr p0
           \<and> load_adapters echo_lib p0 [djl_adapter ''portuguese_alpaca''] = Inr p
           \<and> p = (''huggyllama/llama-7b'', [Some ''eng_alpaca'', Some ''portuguese_alpaca'']))"
proof -
  let ?st = "\<lparr>model = Some (Base ''huggyllama/llama-7b''), tokenizer = Some (Some ''[PAD]'')\<rparr>
               :: (string, string \<times> string option list, string option) globals"
  let ?st' = "\<lparr>model = Some (Peft (''huggyllama/llama-7b'',
                                      [Some ''eng_alpaca'', Some ''portuguese_alpaca''])),
               tokenizer = Some (Some ''[PAD]'')\<rparr>
               :: (string, string \<times> string option list, string option) globals"
  have a: "model ?st = Some (Base ''huggyllama/llama-7b'')" by simp
  have b: "register_adapters echo_lib ?st
             [djl_adapter ''eng_alpaca'', djl_adapter ''portuguese_alpaca''] = (?st', Inr ())"
    by (simp add: register_adapter_def echo_lib_def djl_adapter_def get_property_def)
  from register_adapter_wraps_base_once [OF a b] a b show ?thesis by auto
qed


section \<open>The order of steps in \<^verbatim>\<open>handle\<close>\<close>

lemma handle_load_fails:
  "model st = None \<Longrightarrow> load_model lib (get_properties inputs ''model_id'') = Inl e \<Longrightarrow>
   handle lib st inputs = (st, Inl e)"
  by (simp add: handle_def)

lemma handle_empty:
  "model st \<noteq> None \<or> load_model lib (get_properties inputs ''model_id'') = Inr (m, tok) \<Longrightarrow>
   is_empty inputs \<Longrightarrow>
   handle lib st inputs =
     (if model st = None then st\<lparr>model := Some (Base m), tokenizer := Some tok\<rparr> else st, Inr None)"
  by (auto simp: handle_def)

lemma handle_request:
  "model st \<noteq> None \<or> load_model lib (get_properties inputs ''model_id'') = Inr (m, tok) \<Longrightarrow>
   \<not> is_empty inputs \<Longrightarrow> get_as_json inputs = Inr (PDict kvs) \<Longrightarrow>
   st1 = (if model st = None then st\<lparr>model := Some (Base m), tokenizer := Some tok\<rparr> else st) \<Longrightarrow>
   handle lib st inputs =
     (st1,
      case evaluate lib st1
             (case map_of kvs ''inputs'' of None \<Rightarrow> PNone | Some v \<Rightarrow> v)
             (case map_of kvs ''adapters'' of None \<Rightarrow> PList [] | Some v \<Rightarrow> v)
             (case map_of kvs ''parameters'' of None \<Rightarrow> PDict [] | Some v \<Rightarrow> v) of
        Inl e \<Rightarrow> Inl e
      | Inr outputs \<Rightarrow> Inr (Some (Output_add_as_json outputs)))"
  by (auto simp: handle_def split: sum.splits)

text \<open>
  Claim C10. When the global model is not loaded, \<^verbatim>\<open>handle\<close> loads the base model and
  the tokenizer before it looks at the request: a failing load is the outcome even for an
  empty request. Then, with \<open>st1\<close> the globals after that step, an empty request
  returns \<^verbatim>\<open>None\<close> whatever its body would parse to, and a request whose body is a
  JSON object runs \<^verbatim>\<open>evaluate\<close> on its \<open>inputs\<close>, on its \<open>adapters\<close> or the empty
  list when the key is absent, and on its \<open>parameters\<close> or the empty dictionary when the
  key is absent, and wraps the result in an \<open>Output\<close>.
\<close>

theorem handle_loads_then_checks_empty_then_evaluates:
  "(model st = None \<and> load_model lib (get_properties inputs ''model_id'') = Inl e
      \<longrightarrow> handle lib st inputs = (st, Inl e))
   \<and> ((model st \<noteq> None \<or> load_model lib (get_properties inputs ''model_id'') = Inr (m, tok))
        \<and> st1 = (if model st = None then st\<lparr>model := Some (Base m), tokenizer := Some tok\<rparr> else st)
      \<longrightarrow> (is_empty inputs \<longrightarrow> handle lib st inputs = (st1, Inr None))
        \<and> (\<not> is_empty inputs \<and> get_as_json inputs = Inr (PDict kvs) \<longrightarrow>
             handle lib st inputs =
               (st1,
                case evaluate lib st1
                       (case map_of kvs ''inputs'' of None \<Rightarrow> PNone | Some v \<Rightarrow> v)
                       (case map_of kvs ''adapters'' of None \<Rightarrow> PList [] | Some v \<Rightarrow> v)
                       (case map_of kvs ''parameters'' of None \<Rightarrow> PDict [] | Some v \<Rightarrow> v) of
                  Inl e \<Rightarrow> Inl e
                | Inr outputs \<Rightarrow> Inr (Some (Output_add_as_json outputs)))))"
  using handle_load_fails [of st lib inputs e] handle_empty [of st lib inputs m tok]
    handle_request [of st lib inputs m tok kvs st1]
  by blast

theorem handle_loads_then_checks_empty_then_evaluates_witness:
  "model \<lparr>model = None, tokenizer = None\<rparr> = None
   \<and> is_empty djl_empty_request
   \<and> load_model (raising_lib (OtherError ''OSError'' ''no weights''))
        (get_properties djl_empty_request ''model_id'') = Inl (OtherError ''OSError'' ''no weights'')
   \<and> handle (raising_lib (OtherError ''OSError'' ''no weights''))
        \<lparr>model = None, tokenizer = None\<rparr> djl_empty_request
      = (\<lparr>model = None, tokenizer = None\<rparr>, Inl (OtherError ''OSError'' ''no weights''))
   \<and> load_model echo_lib (get_properties djl_empty_request ''model_id'')
      = Inr (''huggyllama/llama-7b'', Some ''[PAD]'')
   \<and> get_as_json djl_empty_request = Inl (ValueError ''Expecting value'')
   \<and> handle echo_lib \<lparr>model = None, tokenizer = None\<rparr> djl_empty_request
      = (\<lparr>model = Some (Base ''huggyllama/llama-7b''), tokenizer = Some (Some ''[PAD]'')\<rparr>, Inr None)
   \<and> \<not> is_empty (djl_request lora_djl_body_2)
   \<and> get_as_json (djl_request lora_djl_body_2) = Inr lora_djl_body_2
   \<and> handle echo_lib \<lparr>model = None, tokenizer = None\<rparr> (djl_request lora_djl_body_2)
      = (\<lparr>model = Some (Base ''huggyllama/llama-7b''), tokenizer = Some (Some ''[PAD]'')\<rparr>,
         Inr (Some (Output_add_as_json
           [''Below is an instruction that describes a task. Write a response that appropriately completes the ''
          @ [CHR 0x0A] @ ''        request.### Instruction: Tell me about Alpacas ### Response:'',
            ''Below is an instruction that describes a task. Write a response that appropriately completes the ''
          @ [CHR 0x0A] @ ''        request.### Instruction: Invente uma desculpa criativa ### Response:''])))"
proof -
  let ?e = "OtherError ''OSError'' ''no weights''"
  let ?u = "\<lparr>model = None, tokenizer = None\<rparr> :: (unit, unit, unit) globals"
  let ?s = "\<lparr>model = None, tokenizer = None\<rparr>
              :: (string, string \<times> string option list, string option) globals"
  let ?s1 = "\<lparr>model = Some (Base ''huggyllama/llama-7b''), tokenizer = Some (Some ''[PAD]'')\<rparr>
              :: (string, string \<times> string option list, string option) globals"
  let ?kvs = "[(''inputs'', PList [PStr ''Tell me about Alpacas'',
                 PStr ''Invente uma desculpa criativa'']),
               (''adapters'', PList [PStr ''eng_alpaca'', PStr ''portuguese_alpaca''])]"
  have f: "load_model (raising_lib ?e) (get_properties djl_empty_request ''model_id'') = Inl ?e"
    by (simp add: load_model_def raising_lib_def)
  have l: "load_model echo_lib (get_properties djl_empty_request ''model_id'')
             = Inr (''huggyllama/llama-7b'', Some ''[PAD]'')"
    by (simp add: load_model_def echo_lib_def djl_empty_request_def)
  have l2: "load_model echo_lib (get_properties (djl_request lora_djl_body_2) ''model_id'')
             = Inr (''huggyllama/llama-7b'', Some ''[PAD]'')"
    by (simp add: load_model_def echo_lib_def djl_request_def)
  have em: "is_empty djl_empty_request" "get_as_json djl_empty_request = Inl (ValueError ''Expecting value'')"
    by (simp_all add: djl_empty_request_def)
  have ne: "\<not> is_empty (djl_request lora_djl_body_2)"
    "get_as_json (djl_request lora_djl_body_2) = Inr (PDict ?kvs)"
    by (simp_all add: djl_request_def lora_djl_body_2_def)
  have s1: "?s1 = (if model ?s = None
                   then ?s\<lparr>model := Some (Base ''huggyllama/llama-7b''), tokenizer := Some (Some ''[PAD]'')\<rparr>
                   else ?s)" by simp
  note t1 = handle_loads_then_checks_empty_then_evaluates
    [of ?u "raising_lib ?e" djl_empty_request ?e "()" "()" ?u "[]"]
  note t2 = handle_loads_then_checks_empty_then_evaluates
    [of ?s echo_lib djl_empty_request ?e "''huggyllama/llama-7b''" "Some ''[PAD]''" ?s1 "[]"]
  note t3 = handle_loads_then_checks_empty_then_evaluates
    [of ?s echo_lib "djl_request lora_djl_body_2" ?e "''huggyllama/llama-7b''" "Some ''[PAD]''" ?s1 ?kvs]
  from t1 f have a: "handle (raising_lib ?e) ?u djl_empty_request = (?u, Inl ?e)" by simp
  from t2 l em s1 have b: "handle echo_lib ?s djl_empty_request = (?s1, Inr None)" by blast
  from t3 l2 ne s1 have c: "handle echo_lib ?s (djl_request lora_djl_body_2) =
               (?s1,
                case evaluate echo_lib ?s1
                       (case map_of ?kvs ''inputs'' of None \<Rightarrow> PNone | Some v \<Rightarrow> v)
                       (case map_of ?kvs ''adapters'' of None \<Rightarrow> PList [] | Some v \<Rightarrow> v)
                       (case map_of ?kvs ''parameters'' of None \<Rightarrow> PDict [] | Some v \<Rightarrow> v) of
                  Inl e \<Rightarrow> Inl e
                | Inr outputs \<Rightarrow> Inr (Some (Output_add_as_json outputs)))" by blast
  have d: "evaluate echo_lib ?s1
             (PList [PStr ''Tell me about Alpacas'', PStr ''Invente uma desculpa criativa''])
             (PList [PStr ''eng_alpaca'', PStr ''portuguese_alpaca'']) (PDict [])
           = Inr [''Below is an instruction that describes a task. Write a response that appropriately completes the ''
          @ [CHR 0x0A] @ ''        request.### Instruction: Tell me about Alpacas ### Response:'',
                  ''Below is an instruction that describes a task. Write a response that appropriately completes the ''
          @ [CHR 0x0A] @ ''        request.### Instruction: Invente uma desculpa criativa ### Response:'']"
    by (simp add: evaluate_def evaluate_body_def evaluate_generate_def echo_lib_def
        generate_prompt_def format_value_def)
  from c d have c': "handle echo_lib ?s (djl_request lora_djl_body_2) =
      (?s1, Inr (Some (Output_add_as_json
           [''Below is an instruction that describes a task. Write a response that appropriately completes the ''
          @ [CHR 0x0A] @ ''        request.### Instruction: Tell me about Alpacas ### Response:'',
            ''Below is an instruction that describes a task. Write a response that appropriately completes the ''
          @ [CHR 0x0A] @ ''        request.### Instruction: Invente uma desculpa criativa ### Response:''])))"
    by simp
  have g: "get_as_json (djl_request lora_djl_body_2) = Inr lora_djl_body_2"
    by (simp add: djl_request_def)
  from a b c' f l em ne(1) g show ?thesis by simp
qed


section \<open>Exceptions\<close>












section \<open>The request path inside the repository\<close>

text \<open>
  Claim C6, as stated, fails. The first notebook ships \<^verbatim>\<open>model.py\<close> as the entry point
  of the model server, and that file is on the request path: with a library that hands
  every value through unchanged, the handler turns the two instructions of the
  notebook's second request into two prompts of its own making.
\<close>

theorem handle_builds_the_prompts_itself:
  "handle echo_lib
     \<lparr>model = Some (Peft (''huggyllama/llama-7b'', [Some ''eng_alpaca'', Some ''portuguese_alpaca''])),
          tokenizer = Some (Some ''[PAD]'')\<rparr>
     (djl_request lora_djl_body_2)
   = (\<lparr>model = Some (Peft (''huggyllama/llama-7b'', [Some ''eng_alpaca'', Some ''portuguese_alpaca''])),
          tokenizer = Some (Some ''[PAD]'')\<rparr>,
      Inr (Some (Output_add_as_json
        [''Below is an instruction that describes a task. Write a response that appropriately completes the ''
          @ [CHR 0x0A] @ ''        request.### Instruction: Tell me about Alpacas ### Response:'',
         ''Below is an instruction that describes a task. Write a response that appropriately completes the ''
          @ [CHR 0x0A] @ ''        request.### Instruction: Invente uma desculpa criativa ### Response:''])))
   \<and> py_get lora_djl_body_2 ''inputs'' PNone
     = Inr (PList [PStr ''Tell me about Alpacas'', PStr ''Invente uma desculpa criativa''])"
  by (simp add: handle_def djl_request_def lora_djl_body_2_def evaluate_def evaluate_body_def
      evaluate_generate_def echo_lib_def generate_prompt_def format_value_def)

lemma handle_request_path:
  assumes "model st \<noteq> None" and "\<not> is_empty inputs"
    and "get_as_json inputs = Inr (PDict kvs)"
    and "map_of kvs ''inputs'' = Some (PList instructions)"
    and "map_of kvs ''parameters'' = None"
  shows "handle lib st inputs =
     (st,
      case evaluate_generate lib st
             (map (\<lambda>inp. generate_prompt (builtin_str lib) inp PNone) instructions)
             (case map_of kvs ''adapters'' of None \<Rightarrow> PList [] | Some v \<Rightarrow> v)
             (PInt 64) of
        Inl e \<Rightarrow> Inl e
      | Inr outputs \<Rightarrow> Inr (Some (Output_add_as_json outputs)))"
  using assms
  by (auto simp: handle_def evaluate_def evaluate_body_def evaluate_prompts_acc split: sum.splits)

lemma evaluate_generate_calls:
  assumes "tokenizer st = Some tok" and "model st = Some gm"
    and "tokenizer_call lib tok prompts = Inr encoded"
    and "input_ids_to_device lib encoded = Inr ids"
    and "attention_mask_to_device lib encoded = Inr attn"
  shows "evaluate_generate lib st prompts adapters max_new_tokens =
     (case generate lib gm ids attn adapters max_new_tokens of
        Inl e \<Rightarrow> Inl e
      | Inr generation_output \<Rightarrow> batch_decode lib tok generation_output)"
  using assms by (simp add: evaluate_generate_def)

text \<open>
  Claim C6, amended. Batching, adapter paging and the model itself run in the external
  container, but the glue of the request path is code of this repository: for a request
  with a list of inputs and no \<open>parameters\<close>, \<^verbatim>\<open>handle\<close> builds one prompt per input
  with \<^verbatim>\<open>generate_prompt\<close>, has the tokenizer encode them, calls the model's
  \<^verbatim>\<open>generate\<close> with the adapters named in the request (none when the key is absent)
  and 64 new tokens, and decodes what comes back.
\<close>

theorem handle_runs_request_path_in_repo:
  "(model st \<noteq> None \<and> \<not> is_empty inputs \<and> get_as_json inputs = Inr (PDict kvs)
      \<and> map_of kvs ''inputs'' = Some (PList instructions) \<and> map_of kvs ''parameters'' = None
    \<longrightarrow> handle lib st inputs =
         (st,
          case evaluate_generate lib st
                 (map (\<lambda>inp. generate_prompt (builtin_str lib) inp PNone) instructions)
                 (case map_of kvs ''adapters'' of None \<Rightarrow> PList [] | Some v \<Rightarrow> v)
                 (PInt 64) of
            Inl e \<Rightarrow> Inl e
          | Inr outputs \<Rightarrow> Inr (Some (Output_add_as_json outputs))))
   \<and> (tokenizer st = Some tok \<and> model st = Some gm
      \<and> tokenizer_call lib tok prompts = Inr encoded
      \<and> input_ids_to_device lib encoded = Inr ids
      \<and> attention_mask_to_device lib encoded = Inr attn
    \<longrightarrow> evaluate_generate lib st prompts adapters max_new_tokens =
         (case generate lib gm ids attn adapters max_new_tokens of
            Inl e \<Rightarrow> Inl e
          | Inr generation_output \<Rightarrow> batch_decode lib tok generation_output))"
  using handle_request_path [of st inputs kvs instructions lib]
    evaluate_generate_calls [of st tok gm lib prompts encoded ids attn adapters max_new_tokens]
  by blast

theorem handle_runs_request_path_in_repo_witness:
  "model (\<lparr>model = Some (Peft (''huggyllama/llama-7b'', [Some ''eng_alpaca'', Some ''portuguese_alpaca''])),
            tokenizer = Some (Some ''[PAD]'')\<rparr>
           :: (string, string \<times> string option list, string option) globals) \<noteq> None
   \<and> \<not> is_empty (djl_request lora_vllm_body)
   \<and> get_as_json (djl_request lora_vllm_body) = Inr lora_vllm_body
   \<and> handle echo_lib
        \<lparr>model = Some (Peft (''huggyllama/llama-7b'', [Some ''eng_alpaca'', Some ''portuguese_alpaca''])),
          tokenizer = Some (Some ''[PAD]'')\<rparr>
        (djl_request lora_vllm_body)
      = (\<lparr>model = Some (Peft (''huggyllama/llama-7b'', [Some ''eng_alpaca'', Some ''portuguese_alpaca''])),
          tokenizer = Some (Some ''[PAD]'')\<rparr>,
         case evaluate_generate echo_lib
                \<lparr>model = Some (Peft (''huggyllama/llama-7b'', [Some ''eng_alpaca'', Some ''portuguese_alpaca''])),
          tokenizer = Some (Some ''[PAD]'')\<rparr>
                [''Below is an instruction that describes a task. Write a response that appropriately completes the ''
          @ [CHR 0x0A] @ ''        request.### Instruction: Piensa en una excusa creativa para decir que no necesito ir a la fiesta. ### Response:'']
                (PList [PStr ''es'']) (PInt 64) of
           Inl e \<Rightarrow> Inl e
         | Inr outputs \<Rightarrow> Inr (Some (Output_add_as_json outputs)))
   \<and> evaluate_generate echo_lib
        \<lparr>model = Some (Peft (''huggyllama/llama-7b'', [Some ''eng_alpaca'', Some ''portuguese_alpaca''])),
          tokenizer = Some (Some ''[PAD]'')\<rparr>
        [''Below is an instruction that describes a task. Write a response that appropriately completes the ''
          @ [CHR 0x0A] @ ''        request.### Instruction: Piensa en una excusa creativa para decir que no necesito ir a la fiesta. ### Response:'']
        (PList [PStr ''es'']) (PInt 64)
      = Inr [''Below is an instruction that describes a task. Write a response that appropriately completes the ''
          @ [CHR 0x0A] @ ''        request.### Instruction: Piensa en una excusa creativa para decir que no necesito ir a la fiesta. ### Response:'']"
proof -
  let ?sp = "\<lparr>model = Some (Peft (''huggyllama/llama-7b'', [Some ''eng_alpaca'', Some ''portuguese_alpaca''])),
          tokenizer = Some (Some ''[PAD]'')\<rparr>
        :: (string, string \<times> string option list, string option) globals"
  let ?kvs = "[(''inputs'', PList [PStr
               ''Piensa en una excusa creativa para decir que no necesito ir a la fiesta.'']),
            (''adapters'', PList [PStr ''es''])]"
  let ?p = "[''Below is an instruction that describes a task. Write a response that appropriately completes the ''
          @ [CHR 0x0A] @ ''        request.### Instruction: Piensa en una excusa creativa para decir que no necesito ir a la fiesta. ### Response:'']"
  have a: "model ?sp \<noteq> None" "\<not> is_empty (djl_request lora_vllm_body)"
    "get_as_json (djl_request lora_vllm_body) = Inr (PDict ?kvs)"
    "get_as_json (djl_request lora_vllm_body) = Inr lora_vllm_body"
    by (simp_all add: djl_request_def lora_vllm_body_def)
  have p: "map (\<lambda>inp. generate_prompt (builtin_str echo_lib) inp PNone)
             [PStr ''Piensa en una excusa creativa para decir que no necesito ir a la fiesta.''] = ?p"
    by (simp add: generate_prompt_def format_value_def)
  from handle_runs_request_path_in_repo
    [where st = "?sp" and lib = echo_lib and inputs = "djl_request lora_vllm_body" and kvs = "?kvs"
       and instructions = "[PStr ''Piensa en una excusa creativa para decir que no necesito ir a la fiesta.'']",
     THEN conjunct1] a(1-3)
  have b: "handle echo_lib ?sp (djl_request lora_vllm_body) =
      (?sp,
       case evaluate_generate echo_lib ?sp ?p (PList [PStr ''es'']) (PInt 64) of
         Inl e \<Rightarrow> Inl e
       | Inr outputs \<Rightarrow> Inr (Some (Output_add_as_json outputs)))"
    unfolding p by simp
  from handle_runs_request_path_in_repo
    [where st = "?sp" and lib = echo_lib and tok = "Some ''[PAD]''"
       and gm = "Peft (''huggyllama/llama-7b'', [Some ''eng_alpaca'', Some ''portuguese_alpaca''])"
       and prompts = "?p" and encoded = "?p" and ids = "?p" and attn = "?p"
       and adapters = "PList [PStr ''es'']" and max_new_tokens = "PInt 64",
     THEN conjunct2]
  have c: "evaluate_generate echo_lib ?sp ?p (PList [PStr ''es'']) (PInt 64) = Inr ?p"
    by (simp add: echo_lib_def)
  from a(1,2,4) b c show ?thesis by (intro conjI)
qed


section \<open>What is determined by the inputs alone\<close>





section \<open>The request bodies\<close>

lemma lora_djl_bodies:
  "request_bodies (lora_djl_notebook mn) = [lora_djl_body_1, lora_djl_body_2]"
  by (simp add: request_bodies_def lora_djl_notebook_def Let_def List.map_filter_def)

lemma lora_vllm_bodies:
  "request_bodies (lora_vllm_notebook mn) = [lora_vllm_body]"
  by (simp add: request_bodies_def lora_vllm_notebook_def Let_def List.map_filter_def)

lemma function_calling_bodies:
  "request_bodies function_calling_notebook =
     [predict_body chat_messages chat_parameters,
      predict_body function_call_messages function_call_parameters]"
  by (simp add: request_bodies_def function_calling_notebook_def List.map_filter_def)

text \<open>
  Claim C2, as stated, fails. The requests of the first notebook have no messages array
  at all: they carry \<open>inputs\<close> and \<open>adapters\<close> at the top level.
\<close>

theorem lora_requests_do_not_fit_spec_schema:
  "\<not> list_all spec_request_schema
       (request_bodies (lora_djl_notebook ''g5-lora-multi-adapter-2024-03-20-17-55-22-611''))"
  by (simp add: lora_djl_bodies lora_djl_body_1_def spec_request_schema_def)

text \<open>
  Claim C2, amended. The notebooks send two shapes of body. Every request of the two
  LoRA notebooks is an object with exactly the keys \<open>inputs\<close> and \<open>adapters\<close>, two
  lists of strings of equal length, and no messages. Every request of the
  function-calling notebook is an object with a \<open>messages\<close> list, each message having
  exactly a string \<open>role\<close> and a string \<open>content\<close>, and with \<open>model\<close>,
  \<open>top_p\<close>, \<open>temperature\<close>, \<open>max_tokens\<close> (and \<open>stop\<close> in the second request
  only) at the top level of the body; it carries no \<open>adapters\<close> and no nested
  \<open>parameters\<close> object.
\<close>

theorem request_bodies_have_one_of_two_shapes:
  "list_all lora_request_schema (request_bodies (lora_djl_notebook mn))
   \<and> list_all lora_request_schema (request_bodies (lora_vllm_notebook mn))
   \<and> list_all chat_request_schema (request_bodies function_calling_notebook)
   \<and> map (\<lambda>body. case body of PDict kvs \<Rightarrow> map fst kvs | _ \<Rightarrow> [])
        (request_bodies function_calling_notebook)
      = [[''messages'', ''model'', ''top_p'', ''temperature'', ''max_tokens''],
         [''messages'', ''model'', ''top_p'', ''temperature'', ''max_tokens'', ''stop'']]"
proof (intro conjI)
  show "list_all lora_request_schema (request_bodies (lora_djl_notebook mn))"
    by (simp add: lora_djl_bodies lora_djl_body_1_def lora_djl_body_2_def lora_request_schema_def
        is_str_def)
  show "list_all lora_request_schema (request_bodies (lora_vllm_notebook mn))"
    by (simp add: lora_vllm_bodies lora_vllm_body_def lora_request_schema_def is_str_def)
  show "list_all chat_request_schema (request_bodies function_calling_notebook)"
    by (simp add: function_calling_bodies predict_body_def chat_messages_def chat_parameters_def
        function_call_messages_def function_call_parameters_def chat_request_schema_def
        chat_message_def is_str_def is_number_def has_key_def)
  show "map (\<lambda>body. case body of PDict kvs \<Rightarrow> map fst kvs | _ \<Rightarrow> [])
        (request_bodies function_calling_notebook)
      = [[''messages'', ''model'', ''top_p'', ''temperature'', ''max_tokens''],
         [''messages'', ''model'', ''top_p'', ''temperature'', ''max_tokens'', ''stop'']]"
    by (simp add: function_calling_bodies predict_body_def chat_parameters_def
        function_call_parameters_def)
qed

end
